theory Spec2Isabelle
  imports Complex_Main "HOL-Library.Word"
begin

section \<open>JavaScript strings\<close>

text \<open>
  A JavaScript string is a sequence of UTF-16 code units. \<open>String.prototype.trim\<close> and
  the regular expression class \<open>\s\<close> use the same set of code units: the ECMAScript
  WhiteSpace and LineTerminator productions.
\<close>

type_synonym jsstring = "16 word list"

definition isWhiteSpace :: "16 word \<Rightarrow> bool" where
  "isWhiteSpace c \<longleftrightarrow>
     c = 0x9 \<or> c = 0xA \<or> c = 0xB \<or> c = 0xC \<or> c = 0xD \<or> c = 0x20 \<or> c = 0xA0 \<or>
     c = 0x1680 \<or> (0x2000 \<le> c \<and> c \<le> 0x200A) \<or> c = 0x2028 \<or> c = 0x2029 \<or>
     c = 0x202F \<or> c = 0x205F \<or> c = 0x3000 \<or> c = 0xFEFF"

text \<open>\<open>s.trim()\<close>: strip white space from both ends.\<close>

definition trim :: "jsstring \<Rightarrow> jsstring" where
  "trim s = rev (dropWhile isWhiteSpace (rev (dropWhile isWhiteSpace s)))"

text \<open>\<open>/\s/.test(s)\<close>: some code unit of \<open>s\<close> is white space.\<close>

definition hasWhiteSpace :: "jsstring \<Rightarrow> bool" where
  "hasWhiteSpace s = list_ex isWhiteSpace s"

text \<open>ASCII literals as code units, for concrete inputs.\<close>

definition js :: "string \<Rightarrow> jsstring" where
  "js s = map (\<lambda>c. of_nat (of_char c)) s"

section \<open>Data model (App.tsx, type definitions)\<close>

text \<open>
  The interfaces of the source. Several interfaces share the field names \<open>current\<close>,
  \<open>suggestion\<close>, \<open>suggestions\<close>, \<open>type\<close>, \<open>reason\<close> and \<open>position\<close>; the
  record fields carry a prefix for the interface they belong to. An optional field
  (\<open>position?: number\<close>) is an \<open>option\<close>.
\<close>

record Correction =
  c_wrong :: jsstring
  c_suggestions :: "jsstring list"
  c_position :: "int option"

record ToneSuggestion =
  t_current :: jsstring
  t_suggestion :: jsstring
  t_reason :: jsstring
  t_position :: "int option"

record StyleSuggestion =
  s_current :: jsstring
  s_suggestion :: jsstring
  s_type :: jsstring
  s_position :: "int option"

record StyleMixingCorrection =
  m_current :: jsstring
  m_suggestion :: jsstring
  m_type :: jsstring
  m_position :: "int option"

record StyleMixing =
  detected :: bool
  recommendedStyle :: "jsstring option"
  reason :: "jsstring option"
  mix_corrections :: "StyleMixingCorrection list option"

record PunctuationIssue =
  p_issue :: jsstring
  p_currentSentence :: jsstring
  p_correctedSentence :: jsstring
  p_explanation :: jsstring
  p_position :: "int option"

record EuphonyImprovement =
  e_current :: jsstring
  e_suggestions :: "jsstring list"
  e_reason :: jsstring
  e_position :: "int option"

record ContentAnalysis =
  contentType :: jsstring
  description :: "jsstring option"
  missingElements :: "jsstring list option"
  ca_suggestions :: "jsstring list option"

record Stats =
  totalWords :: int
  errorCount :: int
  accuracy :: int

text \<open>
  The data state of the component (the \<open>useState\<close> cells under "Data State"), named as the
  state variables are.
\<close>

record store =
  corrections :: "Correction list"
  toneSuggestions :: "ToneSuggestion list"
  styleSuggestions :: "StyleSuggestion list"
  languageStyleMixing :: "StyleMixing option"
  punctuationIssues :: "PunctuationIssue list"
  euphonyImprovements :: "EuphonyImprovement list"
  contentAnalysis :: "ContentAnalysis option"
  stats :: Stats

text \<open>
  The messages \<open>showMessage\<close> displays and the loading texts are fixed texts of the
  source; each is a constructor. \<open>MsgError\<close> carries the text of a caught error.
\<close>

datatype msg =
    MsgNeedApiKey
  | MsgSelectText
  | MsgCorrected
  | MsgNotFound
  | MsgError jsstring
  | MsgErrorDefault

datatype msg_type = Success | Error

datatype modal = ModalNone | ModalSettings | ModalInstructions | ModalTone | ModalStyle
  | ModalDoctype | ModalMainMenu

datatype style_choice = StyleNone | Sadhu | Cholito

datatype loading = LoadingNone | Analyzing | Highlighting

record app_state =
  apiKey :: jsstring
  selectedTone :: jsstring
  selectedStyle :: style_choice
  isLoading :: bool
  loadingText :: loading
  message :: "(msg \<times> msg_type) option"
  activeModal :: modal
  data :: store

text \<open>\<open>showMessage\<close> sets the message (the timer that clears it after 4000 ms is left out).\<close>

definition showMessage :: "msg \<Rightarrow> msg_type \<Rightarrow> app_state \<Rightarrow> app_state" where
  "showMessage m ty s = s\<lparr>message := Some (m, ty)\<rparr>"

section \<open>The outside world: document host and suggestion provider\<close>

text \<open>
  The Word host and the provider are outside the program. What the program does to them is
  recorded as a list of events, in program order; what it observes of them is given by the
  environment.
\<close>

datatype branch = Main | Tone | Style | Content

record highlight_item =
  h_text :: jsstring
  h_color :: jsstring
  h_position :: "int option"

datatype event =
    DocRead
      \<comment> \<open>\<open>getTextFromWord\<close>: selection and body are read\<close>
  | DocClearHighlights
      \<comment> \<open>\<open>clearHighlights\<close>\<close>
  | DocBatchHighlight "highlight_item list"
      \<comment> \<open>\<open>highlightMultipleInWord\<close> reaches the document with these items\<close>
  | DocHighlight jsstring jsstring
      \<comment> \<open>\<open>highlightInWord\<close>: every range matching the text gets the colour\<close>
  | DocReplaceFirst jsstring jsstring
      \<comment> \<open>first range matching the search text replaced by the new text, its highlight cleared\<close>
  | ProviderCall branch nat
      \<comment> \<open>\<open>callGeminiJson\<close> issued for a branch, at this many ms after the fan-out began\<close>

text \<open>A settled promise.\<close>

datatype 'a outcome = Fulfilled 'a | Rejected jsstring

record word_host =
  searchItems :: "jsstring \<Rightarrow> bool \<Rightarrow> nat option"
    \<comment> \<open>\<open>body.search(text, {matchCase: false, matchWholeWord})\<close> then \<open>sync\<close>:
        the number of ranges found, \<open>None\<close> when the call rejects\<close>
  replaceSyncOk :: bool
    \<comment> \<open>whether the \<open>sync\<close> after \<open>insertText\<close> succeeds\<close>

section \<open>The document adapter (utils/word.ts)\<close>

text \<open>\<open>text.replace(/\r\n/g, '\n').replace(/\r/g, '\n')\<close>\<close>

fun replaceCRLF :: "jsstring \<Rightarrow> jsstring" where
  "replaceCRLF (c # d # cs) =
     (if c = 0xD \<and> d = 0xA then 0xA # replaceCRLF cs else c # replaceCRLF (d # cs))"
| "replaceCRLF cs = cs"

definition normalizeLineBreaks :: "jsstring \<Rightarrow> jsstring" where
  "normalizeLineBreaks t = map (\<lambda>c. if c = 0xD then 0xA else c) (replaceCRLF t)"

text \<open>What \<open>Word.run\<close> gives \<open>getTextFromWord\<close>: it rejects, or the selection's and the body's text.\<close>

datatype word_read = ReadThrows | ReadOk jsstring jsstring

definition getTextFromWord :: "word_read \<Rightarrow> jsstring" where
  "getTextFromWord r =
     (case r of
        ReadThrows \<Rightarrow> []
      | ReadOk selection body \<Rightarrow>
          if selection \<noteq> [] \<and> length (trim selection) > 0
          then normalizeLineBreaks selection
          else normalizeLineBreaks body)"

definition highlightMultipleInWord :: "highlight_item list \<Rightarrow> event list" where
  "highlightMultipleInWord items = (if length items = 0 then [] else [DocBatchHighlight items])"

definition highlightInWord :: "jsstring \<Rightarrow> jsstring \<Rightarrow> event list" where
  "highlightInWord text color =
     (let cleanText = trim text in
      if cleanText = [] then [] else [DocHighlight cleanText color])"

text \<open>\<open>replaceInWord(oldText, newText)\<close>: the boolean it resolves to, and what it did to the document.\<close>

definition replaceInWord :: "word_host \<Rightarrow> jsstring \<Rightarrow> jsstring \<Rightarrow> bool \<times> event list" where
  "replaceInWord h oldText newText =
     (let cleanOldText = trim oldText in
      if cleanOldText = [] then (False, [])
      else
        (case searchItems h cleanOldText (\<not> hasWhiteSpace cleanOldText) of
           None \<Rightarrow> (False, [])
         | Some n \<Rightarrow>
             if n > 0 then
               (if replaceSyncOk h then (True, [DocReplaceFirst cleanOldText newText])
                else (False, []))
             else (False, [])))"

section \<open>Apply and dismiss (App.tsx, handleReplace and dismissSuggestion)\<close>

text \<open>
  \<open>normalize\<close> is imported from \<open>utils/normalize\<close>, which is not part of the sources at hand:
  it is the parameter \<open>nrm\<close> of every function that calls it.
\<close>

definition isNotMatch :: "(jsstring \<Rightarrow> jsstring) \<Rightarrow> jsstring \<Rightarrow> jsstring \<Rightarrow> bool" where
  "isNotMatch nrm target textToCheck \<longleftrightarrow> nrm textToCheck \<noteq> target"

text \<open>The updater both handlers pass to \<open>setLanguageStyleMixing\<close>.\<close>

definition pruneMixing ::
  "(jsstring \<Rightarrow> jsstring) \<Rightarrow> jsstring \<Rightarrow> StyleMixing option \<Rightarrow> StyleMixing option" where
  "pruneMixing nrm target prev =
     (case prev of
        None \<Rightarrow> prev
      | Some m \<Rightarrow>
          (case mix_corrections m of
             None \<Rightarrow> prev
           | Some cs \<Rightarrow>
               (let filtered = filter (\<lambda>c. isNotMatch nrm target (m_current c)) cs in
                if length filtered > 0 then Some (m\<lparr>mix_corrections := Some filtered\<rparr>)
                else None)))"

definition handleReplace ::
  "(jsstring \<Rightarrow> jsstring) \<Rightarrow> word_host \<Rightarrow> jsstring \<Rightarrow> jsstring \<Rightarrow> app_state
     \<Rightarrow> app_state \<times> event list" where
  "handleReplace nrm h oldText newText s =
     (let (success, evs) = replaceInWord h oldText newText in
      if success then
        (let target = nrm (trim oldText);
             d = data s;
             d' = d\<lparr>corrections := filter (\<lambda>c. isNotMatch nrm target (c_wrong c)) (corrections d),
                    toneSuggestions := filter (\<lambda>t. isNotMatch nrm target (t_current t)) (toneSuggestions d),
                    styleSuggestions := filter (\<lambda>x. isNotMatch nrm target (s_current x)) (styleSuggestions d),
                    euphonyImprovements := filter (\<lambda>e. isNotMatch nrm target (e_current e)) (euphonyImprovements d),
                    punctuationIssues := filter (\<lambda>p. isNotMatch nrm target (p_currentSentence p)) (punctuationIssues d),
                    languageStyleMixing := pruneMixing nrm target (languageStyleMixing d)\<rparr>
         in (showMessage MsgCorrected Success (s\<lparr>data := d'\<rparr>), evs))
      else (showMessage MsgNotFound Error s, evs))"

datatype dismiss_type = DSpelling | DTone | DStyle | DMixing | DPunct | DEuphony

definition dismissSuggestion ::
  "(jsstring \<Rightarrow> jsstring) \<Rightarrow> dismiss_type \<Rightarrow> jsstring \<Rightarrow> app_state \<Rightarrow> app_state" where
  "dismissSuggestion nrm ty textToDismiss s =
     (let target = nrm textToDismiss; d = data s in
      case ty of
        DSpelling \<Rightarrow>
          s\<lparr>data := d\<lparr>corrections := filter (\<lambda>c. isNotMatch nrm target (c_wrong c)) (corrections d)\<rparr>\<rparr>
      | DTone \<Rightarrow>
          s\<lparr>data := d\<lparr>toneSuggestions := filter (\<lambda>t. isNotMatch nrm target (t_current t)) (toneSuggestions d)\<rparr>\<rparr>
      | DStyle \<Rightarrow>
          s\<lparr>data := d\<lparr>styleSuggestions := filter (\<lambda>x. isNotMatch nrm target (s_current x)) (styleSuggestions d)\<rparr>\<rparr>
      | DMixing \<Rightarrow>
          s\<lparr>data := d\<lparr>languageStyleMixing := pruneMixing nrm target (languageStyleMixing d)\<rparr>\<rparr>
      | DPunct \<Rightarrow>
          s\<lparr>data := d\<lparr>punctuationIssues := filter (\<lambda>p. isNotMatch nrm target (p_currentSentence p)) (punctuationIssues d)\<rparr>\<rparr>
      | DEuphony \<Rightarrow>
          s\<lparr>data := d\<lparr>euphonyImprovements := filter (\<lambda>e. isNotMatch nrm target (e_current e)) (euphonyImprovements d)\<rparr>\<rparr>)"

text \<open>
  The property both claims about pruning speak of: no suggestion of any category, nor any
  entry of the style-mixing record, has the canonical key \<open>target\<close>; and a style-mixing
  record that is present has no empty list of corrections.
\<close>

definition keyLive :: "(jsstring \<Rightarrow> jsstring) \<Rightarrow> jsstring \<Rightarrow> store \<Rightarrow> bool" where
  "keyLive nrm target d \<longleftrightarrow>
     list_ex (\<lambda>c. nrm (c_wrong c) = target) (corrections d) \<or>
     list_ex (\<lambda>t. nrm (t_current t) = target) (toneSuggestions d) \<or>
     list_ex (\<lambda>x. nrm (s_current x) = target) (styleSuggestions d) \<or>
     list_ex (\<lambda>p. nrm (p_currentSentence p) = target) (punctuationIssues d) \<or>
     list_ex (\<lambda>e. nrm (e_current e) = target) (euphonyImprovements d) \<or>
     (case languageStyleMixing d of
        None \<Rightarrow> False
      | Some m \<Rightarrow>
          (case mix_corrections m of
             None \<Rightarrow> False
           | Some cs \<Rightarrow> list_ex (\<lambda>c. nrm (m_current c) = target) cs))"

definition mixingEmptyButPresent :: "store \<Rightarrow> bool" where
  "mixingEmptyButPresent d \<longleftrightarrow>
     (case languageStyleMixing d of
        None \<Rightarrow> False
      | Some m \<Rightarrow> mix_corrections m = Some [])"

text \<open>
  The same for one category, the one a \<open>type\<close> argument of \<open>dismissSuggestion\<close> names; and
  a store with that category emptied, which shows what the other cells hold.
\<close>

definition keyLiveIn :: "(jsstring \<Rightarrow> jsstring) \<Rightarrow> dismiss_type \<Rightarrow> jsstring \<Rightarrow> store \<Rightarrow> bool" where
  "keyLiveIn nrm ty target d =
     (case ty of
        DSpelling \<Rightarrow> list_ex (\<lambda>c. nrm (c_wrong c) = target) (corrections d)
      | DTone \<Rightarrow> list_ex (\<lambda>t. nrm (t_current t) = target) (toneSuggestions d)
      | DStyle \<Rightarrow> list_ex (\<lambda>x. nrm (s_current x) = target) (styleSuggestions d)
      | DMixing \<Rightarrow>
          (case languageStyleMixing d of
             None \<Rightarrow> False
           | Some m \<Rightarrow>
               (case mix_corrections m of
                  None \<Rightarrow> False
                | Some cs \<Rightarrow> list_ex (\<lambda>c. nrm (m_current c) = target) cs))
      | DPunct \<Rightarrow> list_ex (\<lambda>p. nrm (p_currentSentence p) = target) (punctuationIssues d)
      | DEuphony \<Rightarrow> list_ex (\<lambda>e. nrm (e_current e) = target) (euphonyImprovements d))"

definition clearCategory :: "dismiss_type \<Rightarrow> store \<Rightarrow> store" where
  "clearCategory ty d =
     (case ty of
        DSpelling \<Rightarrow> d\<lparr>corrections := []\<rparr>
      | DTone \<Rightarrow> d\<lparr>toneSuggestions := []\<rparr>
      | DStyle \<Rightarrow> d\<lparr>styleSuggestions := []\<rparr>
      | DMixing \<Rightarrow> d\<lparr>languageStyleMixing := None\<rparr>
      | DPunct \<Rightarrow> d\<lparr>punctuationIssues := []\<rparr>
      | DEuphony \<Rightarrow> d\<lparr>euphonyImprovements := []\<rparr>)"

section \<open>The hover debouncer (App.tsx, handleHighlight)\<close>

text \<open>
  Time is counted in milliseconds. The runtime's timer table holds, for each pending timer,
  its id, the time it is due, and the arguments its callback passes to \<open>highlightInWord\<close>.
  A timer fires when it is due, before any later event is handled. \<open>calls\<close> lists the
  invocations of \<open>highlightInWord\<close> made so far, each with its time.
\<close>

record hl_runtime =
  highlightTimeoutRef :: "nat option"
  nextTimerId :: nat
  pendingTimers :: "(nat \<times> nat \<times> jsstring \<times> jsstring) list"
  calls :: "(nat \<times> jsstring \<times> jsstring) list"

definition initialRuntime :: hl_runtime where
  "initialRuntime =
     \<lparr>highlightTimeoutRef = None, nextTimerId = 1, pendingTimers = [], calls = []\<rparr>"

definition timerDue :: "nat \<times> nat \<times> jsstring \<times> jsstring \<Rightarrow> nat" where
  "timerDue e = fst (snd e)"

definition setTimeout :: "nat \<Rightarrow> jsstring \<Rightarrow> jsstring \<Rightarrow> hl_runtime \<Rightarrow> nat \<times> hl_runtime" where
  "setTimeout due text color rt =
     (nextTimerId rt,
      rt\<lparr>nextTimerId := nextTimerId rt + 1,
         pendingTimers := pendingTimers rt @ [(nextTimerId rt, due, text, color)]\<rparr>)"

definition clearTimeout :: "nat \<Rightarrow> hl_runtime \<Rightarrow> hl_runtime" where
  "clearTimeout i rt = rt\<lparr>pendingTimers := filter (\<lambda>e. fst e \<noteq> i) (pendingTimers rt)\<rparr>"

text \<open>The timers due by \<open>now\<close> fire, earliest first; each calls \<open>highlightInWord\<close>.\<close>

definition advance :: "nat \<Rightarrow> hl_runtime \<Rightarrow> hl_runtime" where
  "advance now rt =
     rt\<lparr>pendingTimers := filter (\<lambda>e. now < timerDue e) (pendingTimers rt),
        calls := calls rt @
          map snd (sort_key timerDue (filter (\<lambda>e. timerDue e \<le> now) (pendingTimers rt)))\<rparr>"

definition handleHighlight :: "nat \<Rightarrow> jsstring \<Rightarrow> jsstring \<Rightarrow> hl_runtime \<Rightarrow> hl_runtime" where
  "handleHighlight now text color rt =
     (let rt1 = advance now rt;
          rt2 = (case highlightTimeoutRef rt1 of
                   None \<Rightarrow> rt1
                 | Some i \<Rightarrow> if i = 0 then rt1 else clearTimeout i rt1);
          (i, rt3) = setTimeout (now + 300) text color rt2
      in rt3\<lparr>highlightTimeoutRef := Some i\<rparr>)"

text \<open>A sequence of hovers, each with its time, then no further hover: every pending timer fires.\<close>

fun hovers :: "(nat \<times> jsstring \<times> jsstring) list \<Rightarrow> hl_runtime \<Rightarrow> hl_runtime" where
  "hovers [] rt = rt"
| "hovers ((now, text, color) # hs) rt = hovers hs (handleHighlight now text color rt)"

definition quiesce :: "hl_runtime \<Rightarrow> hl_runtime" where
  "quiesce rt =
     rt\<lparr>pendingTimers := [],
        calls := calls rt @ map snd (sort_key timerDue (pendingTimers rt))\<rparr>"

definition adapterCalls :: "(nat \<times> jsstring \<times> jsstring) list \<Rightarrow> (nat \<times> jsstring \<times> jsstring) list" where
  "adapterCalls hs = calls (quiesce (hovers hs initialRuntime))"

text \<open>Hover times in order, and each hover less than \<open>gap\<close> ms after the one before it.\<close>

fun withinGap :: "nat \<Rightarrow> (nat \<times> jsstring \<times> jsstring) list \<Rightarrow> bool" where
  "withinGap gap (h # h' # hs) \<longleftrightarrow> fst h \<le> fst h' \<and> fst h' < fst h + gap \<and> withinGap gap (h' # hs)"
| "withinGap gap hs \<longleftrightarrow> True"

text \<open>Successive times at least \<open>gap\<close> ms apart.\<close>

fun spaced :: "nat \<Rightarrow> nat list \<Rightarrow> bool" where
  "spaced gap (t # t' # ts) \<longleftrightarrow> t + gap \<le> t' \<and> spaced gap (t' # ts)"
| "spaced gap ts \<longleftrightarrow> True"

section \<open>Double-precision arithmetic\<close>

text \<open>
  JavaScript numbers are IEEE 754 doubles. The counts the program divides are small integers,
  which are doubles; the quotient and the product are rounded to the nearest double, ties to
  even. A double is represented by the rational it denotes; the model covers the normal
  range (no overflow, no subnormals), in which every value of the computation lies.
\<close>

text \<open>The number of binary digits of a positive integer.\<close>

function bitLength :: "int \<Rightarrow> int" where
  "bitLength n = (if n \<le> 0 then 0 else 1 + bitLength (n div 2))"
  by pat_completeness auto
termination
  by (relation "measure nat") auto

definition pow2 :: "int \<Rightarrow> rat" where
  "pow2 e = (if 0 \<le> e then 2 ^ nat e else 1 / 2 ^ nat (- e))"

text \<open>For \<open>q > 0\<close>, the exponent \<open>e\<close> with \<open>2 ^ e \<le> q < 2 ^ (e + 1)\<close>.\<close>

definition binade :: "rat \<Rightarrow> int" where
  "binade q =
     (let (a, b) = quotient_of q;
          k = bitLength a - bitLength b
      in if pow2 k \<le> q then k else k - 1)"

definition roundTiesToEven :: "rat \<Rightarrow> int" where
  "roundTiesToEven m =
     (let f = \<lfloor>m\<rfloor>; r = m - of_int f in
      if r < 1 / 2 then f
      else if 1 / 2 < r then f + 1
      else if even f then f else f + 1)"

text \<open>The double nearest to \<open>q\<close>: 53 significant bits.\<close>

definition toDouble :: "rat \<Rightarrow> rat" where
  "toDouble q =
     (if q = 0 then 0
      else
        (let a = \<bar>q\<bar>;
             u = pow2 (binade a - 52)
         in sgn q * of_int (roundTiesToEven (a / u)) * u))"

text \<open>\<open>Math.round\<close>: the nearest integer, a tie going up.\<close>

definition mathRound :: "rat \<Rightarrow> int" where
  "mathRound x = \<lfloor>x + 1 / 2\<rfloor>"

section \<open>The check cycle (App.tsx, performMainCheck to checkSpelling)\<close>

text \<open>
  \<open>s.split(/\s+/)\<close>: the pieces of \<open>s\<close> between its maximal runs of white space. A run at
  the start or at the end leaves an empty piece there, and the empty string gives one
  empty piece.
\<close>

function splitWhiteSpace :: "jsstring \<Rightarrow> jsstring list" where
  "splitWhiteSpace [] = [[]]"
| "splitWhiteSpace (c # cs) =
     (if isWhiteSpace c then [] # splitWhiteSpace (dropWhile isWhiteSpace cs)
      else (case splitWhiteSpace cs of
              [] \<Rightarrow> [[c]]
            | piece # pieces \<Rightarrow> (c # piece) # pieces))"
  by pat_completeness auto
termination
  by (relation "measure length") (auto simp: length_dropWhile_le le_imp_less_Suc)

text \<open>\<open>text.trim().split(/\s+/).filter(Boolean).length\<close>\<close>

definition countWords :: "jsstring \<Rightarrow> int" where
  "countWords text = int (length (filter (\<lambda>w. w \<noteq> []) (splitWhiteSpace (trim text))))"

text \<open>The \<open>Stats\<close> object \<open>performMainCheck\<close> stores.\<close>

definition computeStats :: "jsstring \<Rightarrow> Correction list \<Rightarrow> Stats" where
  "computeStats text spelling =
     (let words = countWords text;
          errorCount = int (length spelling)
      in \<lparr>totalWords = words,
          errorCount = errorCount,
          accuracy =
            (if words > 0
             then mathRound (toDouble (toDouble (of_int (words - errorCount) / of_int words) * 100))
             else 100)\<rparr>)"

text \<open>
  The object \<open>callGeminiJson\<close> resolves to when it is not null, with the fields the program
  reads. The reply is not trusted to have the expected shape. A list field may be missing
  (or null, or any other falsy value), may hold a value that is not an array, or may hold
  an array some of whose elements are null; the elements that are objects are taken to
  have the fields of their interface. The content-analysis branch stores the whole object
  as a \<open>ContentAnalysis\<close>.
\<close>

datatype 'a js_array = Missing | NotAnArray | Array "'a option list"

record RawStyleMixing =
  raw_detected :: bool
  raw_recommendedStyle :: "jsstring option"
  raw_reason :: "jsstring option"
  raw_corrections :: "StyleMixingCorrection js_array"

record response =
  spellingErrors :: "Correction js_array"
  r_punctuationIssues :: "PunctuationIssue js_array"
  r_euphonyImprovements :: "EuphonyImprovement js_array"
  r_languageStyleMixing :: "RawStyleMixing option"
  toneConversions :: "ToneSuggestion js_array"
  styleConversions :: "StyleSuggestion js_array"
  asContentAnalysis :: ContentAnalysis

text \<open>\<open>position: x.position ?? 0\<close>\<close>

definition orZero :: "int option \<Rightarrow> int option" where
  "orZero p = Some (case p of None \<Rightarrow> 0 | Some n \<Rightarrow> n)"

text \<open>
  The message of the \<open>TypeError\<close> the engine raises when \<open>map\<close> is called on a value that
  has none, or \<open>position\<close> is read from null. Its wording is the engine's; it is not empty.
\<close>

definition typeError :: jsstring where
  "typeError = js ''TypeError''"

text \<open>
  \<open>(xs || []).map(x => ({ ...x, position: x.position ?? 0 }))\<close>: the mapped list, or the
  error raised on the way.
\<close>

fun mapElements :: "('a \<Rightarrow> 'a) \<Rightarrow> 'a option list \<Rightarrow> jsstring + 'a list" where
  "mapElements f [] = Inr []"
| "mapElements f (None # xs) = Inl typeError"
| "mapElements f (Some x # xs) =
     (case mapElements f xs of Inl err \<Rightarrow> Inl err | Inr ys \<Rightarrow> Inr (f x # ys))"

definition mapOrEmpty :: "('a \<Rightarrow> 'a) \<Rightarrow> 'a js_array \<Rightarrow> jsstring + 'a list" where
  "mapOrEmpty f xs =
     (case xs of
        Missing \<Rightarrow> Inr []
      | NotAnArray \<Rightarrow> Inl typeError
      | Array elems \<Rightarrow> mapElements f elems)"

text \<open>
  \<open>let mixing = result.languageStyleMixing || null\<close>, with its corrections mapped when it
  has any.
\<close>

definition mixingOf :: "RawStyleMixing option \<Rightarrow> jsstring + StyleMixing option" where
  "mixingOf raw =
     (case raw of
        None \<Rightarrow> Inr None
      | Some m \<Rightarrow>
          (case raw_corrections m of
             Missing \<Rightarrow>
               Inr (Some \<lparr>detected = raw_detected m, recommendedStyle = raw_recommendedStyle m,
                          reason = raw_reason m, mix_corrections = None\<rparr>)
           | NotAnArray \<Rightarrow> Inl typeError
           | Array elems \<Rightarrow>
               (case mapElements (\<lambda>c. c\<lparr>m_position := orZero (m_position c)\<rparr>) elems of
                  Inl err \<Rightarrow> Inl err
                | Inr cs \<Rightarrow>
                    Inr (Some \<lparr>detected = raw_detected m,
                               recommendedStyle = raw_recommendedStyle m,
                               reason = raw_reason m, mix_corrections = Some cs\<rparr>))))"

text \<open>What a branch's promise resolves to.\<close>

datatype js_value =
    VNull
  | VUndefined
  | VEmptyArray
  | VCorrections "Correction list"
  | VTones "ToneSuggestion list"
  | VStyles "StyleSuggestion list"

text \<open>
  The branch helpers. Each takes what its \<open>await callGeminiJson(...)\<close> settled to, and gives
  what its own promise settles to and the store after the setters it reached. A rejected
  call and an error raised while a list is mapped reject the branch; the setters called
  before the error have taken effect.
\<close>

definition performMainCheck ::
  "response option outcome \<Rightarrow> jsstring \<Rightarrow> store \<Rightarrow> js_value outcome \<times> store" where
  "performMainCheck called text d =
     (case called of
        Rejected err \<Rightarrow> (Rejected err, d)
      | Fulfilled None \<Rightarrow> (Fulfilled VNull, d)
      | Fulfilled (Some result) \<Rightarrow>
          (case mapOrEmpty (\<lambda>e. e\<lparr>c_position := orZero (c_position e)\<rparr>)
                  (spellingErrors result) of
             Inl err \<Rightarrow> (Rejected err, d)
           | Inr spelling \<Rightarrow>
               (case mapOrEmpty (\<lambda>p. p\<lparr>p_position := orZero (p_position p)\<rparr>)
                       (r_punctuationIssues result) of
                  Inl err \<Rightarrow> (Rejected err, d\<lparr>corrections := spelling\<rparr>)
                | Inr punct \<Rightarrow>
                    (case mapOrEmpty (\<lambda>e. e\<lparr>e_position := orZero (e_position e)\<rparr>)
                            (r_euphonyImprovements result) of
                       Inl err \<Rightarrow>
                         (Rejected err, d\<lparr>corrections := spelling, punctuationIssues := punct\<rparr>)
                     | Inr euphony \<Rightarrow>
                         (case mixingOf (r_languageStyleMixing result) of
                            Inl err \<Rightarrow>
                              (Rejected err,
                               d\<lparr>corrections := spelling, punctuationIssues := punct,
                                 euphonyImprovements := euphony\<rparr>)
                          | Inr mixing \<Rightarrow>
                              (Fulfilled (VCorrections spelling),
                               d\<lparr>corrections := spelling, punctuationIssues := punct,
                                 euphonyImprovements := euphony,
                                 languageStyleMixing := mixing,
                                 stats := computeStats text spelling\<rparr>))))))"

definition performToneCheck ::
  "response option outcome \<Rightarrow> store \<Rightarrow> js_value outcome \<times> store" where
  "performToneCheck called d =
     (case called of
        Rejected err \<Rightarrow> (Rejected err, d)
      | Fulfilled None \<Rightarrow> (Fulfilled VNull, d)
      | Fulfilled (Some result) \<Rightarrow>
          (case mapOrEmpty (\<lambda>t. t\<lparr>t_position := orZero (t_position t)\<rparr>)
                  (toneConversions result) of
             Inl err \<Rightarrow> (Rejected err, d)
           | Inr tones \<Rightarrow> (Fulfilled (VTones tones), d\<lparr>toneSuggestions := tones\<rparr>)))"

definition performStyleCheck ::
  "response option outcome \<Rightarrow> store \<Rightarrow> js_value outcome \<times> store" where
  "performStyleCheck called d =
     (case called of
        Rejected err \<Rightarrow> (Rejected err, d)
      | Fulfilled None \<Rightarrow> (Fulfilled VNull, d)
      | Fulfilled (Some result) \<Rightarrow>
          (case mapOrEmpty (\<lambda>x. x\<lparr>s_position := orZero (s_position x)\<rparr>)
                  (styleConversions result) of
             Inl err \<Rightarrow> (Rejected err, d)
           | Inr styles \<Rightarrow> (Fulfilled (VStyles styles), d\<lparr>styleSuggestions := styles\<rparr>)))"

definition analyzeContentLogic ::
  "response option outcome \<Rightarrow> store \<Rightarrow> js_value outcome \<times> store" where
  "analyzeContentLogic called d =
     (case called of
        Rejected err \<Rightarrow> (Rejected err, d)
      | Fulfilled None \<Rightarrow> (Fulfilled VUndefined, d)
      | Fulfilled (Some result) \<Rightarrow>
          (Fulfilled VUndefined, d\<lparr>contentAnalysis := Some (asContentAnalysis result)\<rparr>))"

text \<open>
  The environment of one check cycle: what the document read gives, what \<open>callGeminiJson\<close>
  settles to for each branch, how late each branch's timer fires, and how long each
  branch's provider call takes (both in ms).
\<close>

record env =
  readWord :: word_read
  provider :: "branch \<Rightarrow> response option outcome"
  timerLate :: "branch \<Rightarrow> nat"
  latency :: "branch \<Rightarrow> nat"

text \<open>
  The entries of the \<open>tasks\<close> array: a branch started at once, a branch started by a timer
  after a delay, or \<open>Promise.resolve([])\<close>.
\<close>

datatype task = Immediate branch | Delayed nat branch | ResolvedEmpty

definition tasks :: "app_state \<Rightarrow> task list" where
  "tasks s =
     [Immediate Main,
      if selectedTone s \<noteq> [] then Delayed 200 Tone else ResolvedEmpty,
      if selectedStyle s \<noteq> StyleNone then Delayed 400 Style else ResolvedEmpty,
      Delayed 600 Content]"

definition perform ::
  "branch \<Rightarrow> response option outcome \<Rightarrow> jsstring \<Rightarrow> store \<Rightarrow> js_value outcome \<times> store" where
  "perform b called text d =
     (case b of
        Main \<Rightarrow> performMainCheck called text d
      | Tone \<Rightarrow> performToneCheck called d
      | Style \<Rightarrow> performStyleCheck called d
      | Content \<Rightarrow> analyzeContentLogic called d)"

text \<open>When a task issues its provider call, if it issues one, and when its promise settles.\<close>

definition issueTime :: "env \<Rightarrow> task \<Rightarrow> nat option" where
  "issueTime e t =
     (case t of
        Immediate b \<Rightarrow> Some 0
      | Delayed delay b \<Rightarrow> Some (delay + timerLate e b)
      | ResolvedEmpty \<Rightarrow> None)"

definition providerCalls :: "env \<Rightarrow> task \<Rightarrow> event list" where
  "providerCalls e t =
     (case t of
        Immediate b \<Rightarrow> [ProviderCall b 0]
      | Delayed delay b \<Rightarrow> [ProviderCall b (delay + timerLate e b)]
      | ResolvedEmpty \<Rightarrow> [])"

definition settleTime :: "env \<Rightarrow> task \<Rightarrow> nat" where
  "settleTime e t =
     (case t of
        Immediate b \<Rightarrow> latency e b
      | Delayed delay b \<Rightarrow> delay + timerLate e b + latency e b
      | ResolvedEmpty \<Rightarrow> 0)"

definition runTask :: "env \<Rightarrow> jsstring \<Rightarrow> task \<Rightarrow> store \<Rightarrow> js_value outcome \<times> store" where
  "runTask e text t d =
     (case t of
        Immediate b \<Rightarrow> perform b (provider e b) text d
      | Delayed delay b \<Rightarrow> perform b (provider e b) text d
      | ResolvedEmpty \<Rightarrow> (Fulfilled VEmptyArray, d))"

text \<open>
  Every task runs to its end, whatever the others do; the state setters of different
  branches write different cells, so the tasks are run in the order of the array.
\<close>

fun runTasks :: "env \<Rightarrow> jsstring \<Rightarrow> task list \<Rightarrow> store \<Rightarrow> js_value outcome list \<times> store" where
  "runTasks e text [] d = ([], d)"
| "runTasks e text (t # ts) d =
     (let (r, d') = runTask e text t d;
          (rs, d'') = runTasks e text ts d'
      in (r # rs, d''))"

text \<open>
  \<open>Promise.all\<close> over promises given with their settle times: the list of values when all
  are fulfilled, else the rejection that comes first in time (the earlier entry on a tie).
\<close>

fun firstRejection :: "(nat \<times> 'a outcome) list \<Rightarrow> (nat \<times> jsstring) option" where
  "firstRejection [] = None"
| "firstRejection ((t, Fulfilled v) # ps) = firstRejection ps"
| "firstRejection ((t, Rejected err) # ps) =
     (case firstRejection ps of
        None \<Rightarrow> Some (t, err)
      | Some (t', err') \<Rightarrow> if t' < t then Some (t', err') else Some (t, err))"

fun fulfilledValues :: "(nat \<times> 'a outcome) list \<Rightarrow> 'a list" where
  "fulfilledValues [] = []"
| "fulfilledValues ((t, Fulfilled v) # ps) = v # fulfilledValues ps"
| "fulfilledValues ((t, Rejected err) # ps) = fulfilledValues ps"

definition promiseAll :: "(nat \<times> 'a outcome) list \<Rightarrow> 'a list outcome" where
  "promiseAll ps =
     (case firstRejection ps of
        None \<Rightarrow> Fulfilled (fulfilledValues ps)
      | Some (t, err) \<Rightarrow> Rejected err)"


definition fulfilled :: "'a outcome \<Rightarrow> bool" where
  "fulfilled r = (case r of Fulfilled v \<Rightarrow> True | Rejected err \<Rightarrow> False)"

text \<open>\<open>results[i] || []\<close>, read as the list the program then iterates over.\<close>

definition resultAt :: "js_value list \<Rightarrow> nat \<Rightarrow> js_value" where
  "resultAt results i = (if i < length results then results ! i else VUndefined)"

definition asCorrections :: "js_value \<Rightarrow> Correction list" where
  "asCorrections v = (case v of VCorrections l \<Rightarrow> l | _ \<Rightarrow> [])"

definition asTones :: "js_value \<Rightarrow> ToneSuggestion list" where
  "asTones v = (case v of VTones l \<Rightarrow> l | _ \<Rightarrow> [])"

definition asStyles :: "js_value \<Rightarrow> StyleSuggestion list" where
  "asStyles v = (case v of VStyles l \<Rightarrow> l | _ \<Rightarrow> [])"

definition highlightItems :: "js_value list \<Rightarrow> highlight_item list" where
  "highlightItems results =
     map (\<lambda>i. \<lparr>h_text = c_wrong i, h_color = js ''#fee2e2'', h_position = c_position i\<rparr>)
       (asCorrections (resultAt results 0)) @
     map (\<lambda>i. \<lparr>h_text = t_current i, h_color = js ''#fef3c7'', h_position = t_position i\<rparr>)
       (asTones (resultAt results 1)) @
     map (\<lambda>i. \<lparr>h_text = s_current i, h_color = js ''#ccfbf1'', h_position = s_position i\<rparr>)
       (asStyles (resultAt results 2))"

definition resetStore :: store where
  "resetStore =
     \<lparr>corrections = [], toneSuggestions = [], styleSuggestions = [],
      languageStyleMixing = None, punctuationIssues = [], euphonyImprovements = [],
      contentAnalysis = None,
      stats = \<lparr>totalWords = 0, errorCount = 0, accuracy = 100\<rparr>\<rparr>"

text \<open>\<open>error?.message || '...'\<close>\<close>

definition errorMessage :: "jsstring \<Rightarrow> msg" where
  "errorMessage err = (if err = [] then MsgErrorDefault else MsgError err)"

text \<open>The join of one cycle: what \<open>await Promise.all(tasks)\<close> gives.\<close>

definition joinTasks :: "env \<Rightarrow> jsstring \<Rightarrow> app_state \<Rightarrow> js_value list outcome" where
  "joinTasks e text s =
     promiseAll (zip (map (settleTime e) (tasks s)) (fst (runTasks e text (tasks s) resetStore)))"


definition checkSpelling :: "env \<Rightarrow> app_state \<Rightarrow> app_state \<times> event list" where
  "checkSpelling e s =
     (if apiKey s = [] then
        ((showMessage MsgNeedApiKey Error s)\<lparr>activeModal := ModalSettings\<rparr>, [])
      else
        (let text = getTextFromWord (readWord e) in
         if text = [] \<or> length (trim text) = 0 then
           (showMessage MsgSelectText Error s, [DocRead])
         else
           (let d = snd (runTasks e text (tasks s) resetStore);
                issued = concat (map (providerCalls e) (tasks s));
                done = s\<lparr>isLoading := False, loadingText := LoadingNone, data := d\<rparr>
            in case joinTasks e text s of
                 Fulfilled results \<Rightarrow>
                   (done,
                    [DocRead, DocClearHighlights] @ issued @
                    (if length (highlightItems results) > 0
                     then highlightMultipleInWord (highlightItems results) else []))
               | Rejected err \<Rightarrow>
                   (showMessage (errorMessage err) Error done,
                    [DocRead, DocClearHighlights] @ issued))))"

text \<open>The batched highlight calls among a list of events.\<close>

fun batchHighlights :: "event list \<Rightarrow> highlight_item list list" where
  "batchHighlights [] = []"
| "batchHighlights (DocBatchHighlight items # evs) = items # batchHighlights evs"
| "batchHighlights (ev # evs) = batchHighlights evs"

text \<open>The times at which a branch's provider call is issued, among a list of events.\<close>

fun callTimes :: "branch \<Rightarrow> event list \<Rightarrow> nat list" where
  "callTimes b [] = []"
| "callTimes b (ProviderCall b' t # evs) = (if b' = b then t # callTimes b evs else callTimes b evs)"
| "callTimes b (ev # evs) = callTimes b evs"

section \<open>The words of the specification\<close>

text \<open>
  The white-space-delimited tokens of a text, as the spec counts them: the maximal runs of
  code units that are not white space.
\<close>

function tokens :: "jsstring \<Rightarrow> jsstring list" where
  "tokens s =
     (case dropWhile isWhiteSpace s of
        [] \<Rightarrow> []
      | c # cs \<Rightarrow>
          takeWhile (\<lambda>x. \<not> isWhiteSpace x) (c # cs) #
          tokens (dropWhile (\<lambda>x. \<not> isWhiteSpace x) (c # cs)))"
  by pat_completeness auto
termination
proof (relation "measure length", goal_cases)
  case 1
  show ?case by simp
next
  case (2 s c cs)
  have "\<not> isWhiteSpace c"
    using 2 hd_dropWhile[of isWhiteSpace s] by (metis list.sel(1) list.distinct(1))
  then have "length (dropWhile (\<lambda>x. \<not> isWhiteSpace x) (c # cs)) \<le> length cs"
    by (simp add: length_dropWhile_le)
  moreover have "length (c # cs) \<le> length s"
    using 2 length_dropWhile_le[of isWhiteSpace s] by simp
  ultimately show ?case by simp
qed

declare tokens.simps [simp del]

text \<open>
  The debouncer as the spec describes it: of a sequence of hovers, those followed by a
  quiet period of at least \<open>gap\<close> ms (the last hover included) are the ones that reach the
  adapter, each after the delay.
\<close>

fun lastOfBursts :: "nat \<Rightarrow> (nat \<times> jsstring \<times> jsstring) list \<Rightarrow> (nat \<times> jsstring \<times> jsstring) list" where
  "lastOfBursts gap (h # h' # hs) =
     (if fst h + gap \<le> fst h' then h # lastOfBursts gap (h' # hs) else lastOfBursts gap (h' # hs))"
| "lastOfBursts gap hs = hs"

definition afterDelay :: "nat \<Rightarrow> nat \<times> jsstring \<times> jsstring \<Rightarrow> nat \<times> jsstring \<times> jsstring" where
  "afterDelay d h = (fst h + d, snd h)"

text \<open>
  A runtime in which exactly one timer is pending: the one the ref names, scheduled by the
  hover \<open>h\<close>.
\<close>

definition armed :: "nat \<times> jsstring \<times> jsstring \<Rightarrow> hl_runtime \<Rightarrow> bool" where
  "armed h rt \<longleftrightarrow>
     (case highlightTimeoutRef rt of
        None \<Rightarrow> False
      | Some i \<Rightarrow> i \<noteq> 0 \<and> pendingTimers rt = [(i, fst h + 300, snd h)]) \<and>
     nextTimerId rt \<noteq> 0"

text \<open>The accuracy the spec states: \<open>round(100 * (totalWords - errorCount) / totalWords)\<close>.\<close>

definition specAccuracy :: "int \<Rightarrow> int \<Rightarrow> int" where
  "specAccuracy words errs =
     (if words > 0 then round (100 * of_int (words - errs) / (of_int words :: rat)) else 100)"

text \<open>
  The batch the spec describes: the matching-field texts of the spelling, tone and style
  results, each with its category's colour.
\<close>

definition batchOf :: "store \<Rightarrow> highlight_item list" where
  "batchOf d =
     map (\<lambda>i. \<lparr>h_text = c_wrong i, h_color = js ''#fee2e2'', h_position = c_position i\<rparr>)
       (corrections d) @
     map (\<lambda>i. \<lparr>h_text = t_current i, h_color = js ''#fef3c7'', h_position = t_position i\<rparr>)
       (toneSuggestions d) @
     map (\<lambda>i. \<lparr>h_text = s_current i, h_color = js ''#ccfbf1'', h_position = s_position i\<rparr>)
       (styleSuggestions d)"


section \<open>Concrete inputs\<close>

text \<open>
  A store in which the key \<open>teh\<close> is live in three places (spelling, tone, and the only
  entry of the style-mixing record); a store that also holds the key \<open>cat\<close>, in the
  spelling list and in the style-mixing record; and a document in which only \<open>teh\<close> is
  found. Where a concrete normalizer is needed, \<open>trim\<close> stands for it.
\<close>

definition demoStore :: store where
  "demoStore =
     \<lparr>corrections = [\<lparr>c_wrong = js ''teh'', c_suggestions = [js ''the''], c_position = Some 0\<rparr>],
      toneSuggestions =
        [\<lparr>t_current = js ''teh'', t_suggestion = js ''the'', t_reason = js ''formal'',
          t_position = Some 0\<rparr>],
      styleSuggestions = [],
      languageStyleMixing =
        Some \<lparr>detected = True, recommendedStyle = None, reason = None,
              mix_corrections =
                Some [\<lparr>m_current = js ''teh'', m_suggestion = js ''the'', m_type = js ''mix'',
                       m_position = Some 0\<rparr>]\<rparr>,
      punctuationIssues = [], euphonyImprovements = [],
      contentAnalysis = None,
      stats = \<lparr>totalWords = 3, errorCount = 1, accuracy = 67\<rparr>\<rparr>"

definition demoState :: app_state where
  "demoState =
     \<lparr>apiKey = js ''key'', selectedTone = [], selectedStyle = StyleNone, isLoading = False,
      loadingText = LoadingNone, message = None, activeModal = ModalNone, data = demoStore\<rparr>"

definition twoKeyState :: app_state where
  "twoKeyState =
     demoState\<lparr>data := demoStore
       \<lparr>corrections :=
          [\<lparr>c_wrong = js ''teh'', c_suggestions = [js ''the''], c_position = Some 0\<rparr>,
           \<lparr>c_wrong = js ''cat'', c_suggestions = [js ''cot''], c_position = Some 4\<rparr>],
        languageStyleMixing :=
          Some \<lparr>detected = True, recommendedStyle = None, reason = None,
                mix_corrections =
                  Some [\<lparr>m_current = js ''teh'', m_suggestion = js ''the'', m_type = js ''mix'',
                         m_position = Some 0\<rparr>,
                        \<lparr>m_current = js ''cat'', m_suggestion = js ''cot'', m_type = js ''mix'',
                         m_position = Some 4\<rparr>]\<rparr>\<rparr>\<rparr>"

definition demoHost :: word_host where
  "demoHost = \<lparr>searchItems = (\<lambda>t w. if t = js ''teh'' then Some 1 else Some 0), replaceSyncOk = True\<rparr>"

text \<open>
  Provider responses and environments of a check cycle over the document \<open>teh cat\<close>: one
  with a spelling and a tone finding, one without findings, one whose main call resolves
  to null, and one whose main reply holds a \<open>spellingErrors\<close> that is not an array.
\<close>

definition demoAnalysis :: ContentAnalysis where
  "demoAnalysis = \<lparr>contentType = js ''note'', description = None, missingElements = None, ca_suggestions = None\<rparr>"

definition cleanResponse :: response where
  "cleanResponse =
     \<lparr>spellingErrors = Array [], r_punctuationIssues = Array [],
      r_euphonyImprovements = Array [],
      r_languageStyleMixing = None, toneConversions = Missing, styleConversions = Missing,
      asContentAnalysis = demoAnalysis\<rparr>"

definition tehResponse :: response where
  "tehResponse =
     \<lparr>spellingErrors =
        Array [Some \<lparr>c_wrong = js ''teh'', c_suggestions = [js ''the''], c_position = None\<rparr>],
      r_punctuationIssues = Missing, r_euphonyImprovements = Missing,
      r_languageStyleMixing = None,
      toneConversions =
        Array [Some \<lparr>t_current = js ''cat'', t_suggestion = js ''feline'',
                     t_reason = js ''formal'', t_position = Some 4\<rparr>],
      styleConversions = Missing,
      asContentAnalysis = demoAnalysis\<rparr>"

definition malformedResponse :: response where
  "malformedResponse = tehResponse\<lparr>spellingErrors := NotAnArray\<rparr>"

definition demoEnv :: env where
  "demoEnv =
     \<lparr>readWord = ReadOk [] (js ''teh cat''),
      provider = (\<lambda>b. Fulfilled (Some tehResponse)),
      timerLate = (\<lambda>b. 3),
      latency = (\<lambda>b. 50)\<rparr>"

definition cleanEnv :: env where
  "cleanEnv = demoEnv\<lparr>provider := (\<lambda>b. Fulfilled (Some cleanResponse))\<rparr>"

definition nullMainEnv :: env where
  "nullMainEnv =
     demoEnv\<lparr>provider := (\<lambda>b. if b = Main then Fulfilled None else Fulfilled (Some tehResponse))\<rparr>"

definition malformedEnv :: env where
  "malformedEnv =
     demoEnv\<lparr>provider :=
       (\<lambda>b. if b = Main then Fulfilled (Some malformedResponse) else Fulfilled (Some tehResponse))\<rparr>"

definition formalState :: app_state where
  "formalState = demoState\<lparr>selectedTone := js ''formal''\<rparr>"

text \<open>
  Three hovers on distinct texts within 300 ms; and a text of forty words for which the
  provider reports seventeen spelling errors.
\<close>

definition threeHovers :: "(nat \<times> jsstring \<times> jsstring) list" where
  "threeHovers =
     [(0, js ''teh'', js ''#fee2e2''), (100, js ''cat'', js ''#fef3c7''),
      (250, js ''dog'', js ''#ccfbf1'')]"

definition fortyWords :: jsstring where
  "fortyWords = concat (replicate 40 (js ''ab ''))"

definition seventeenErrors :: response where
  "seventeenErrors =
     cleanResponse\<lparr>spellingErrors :=
       Array (replicate 17
         (Some \<lparr>c_wrong = js ''ab'', c_suggestions = [js ''abc''], c_position = None\<rparr>))\<rparr>"

section \<open>Apply and dismiss: proofs\<close>

lemmas demo_defs = demoStore_def demoState_def demoHost_def js_def trim_def isWhiteSpace_def hasWhiteSpace_def

lemmas env_defs = demoEnv_def cleanEnv_def nullMainEnv_def malformedEnv_def formalState_def
  demoState_def getTextFromWord_def normalizeLineBreaks_def js_def trim_def isWhiteSpace_def

lemma filter_isNotMatch_no_key:
  "\<not> list_ex (\<lambda>x. nrm (f x) = target) (filter (\<lambda>x. isNotMatch nrm target (f x)) xs)"
  by (simp add: list_ex_iff isNotMatch_def)

lemma pruneMixing_no_key:
  "pruneMixing nrm target prev = Some m \<Longrightarrow> mix_corrections m = Some cs \<Longrightarrow>
   \<not> list_ex (\<lambda>c. nrm (m_current c) = target) cs"
  by (auto simp: pruneMixing_def Let_def list_ex_iff isNotMatch_def split: option.splits if_splits)

lemma pruneMixing_not_empty:
  "pruneMixing nrm target prev = Some m \<Longrightarrow> mix_corrections m \<noteq> Some []"
  by (auto simp: pruneMixing_def Let_def split: option.splits if_splits)

lemma pruneMixing_cases:
  "pruneMixing nrm target None = None"
  "mix_corrections m = None \<Longrightarrow> pruneMixing nrm target (Some m) = Some m"
  "mix_corrections m = Some cs \<Longrightarrow> filter (\<lambda>c. nrm (m_current c) \<noteq> target) cs = [] \<Longrightarrow>
     pruneMixing nrm target (Some m) = None"
  "mix_corrections m = Some cs \<Longrightarrow> filter (\<lambda>c. nrm (m_current c) \<noteq> target) cs \<noteq> [] \<Longrightarrow>
     pruneMixing nrm target (Some m) =
       Some (m\<lparr>mix_corrections := Some (filter (\<lambda>c. nrm (m_current c) \<noteq> target) cs)\<rparr>)"
  by (simp_all add: pruneMixing_def isNotMatch_def Let_def)

lemma handleReplace_success:
  "fst (replaceInWord h oldText newText) \<Longrightarrow>
   data (fst (handleReplace nrm h oldText newText s)) =
     (data s)\<lparr>corrections := filter (\<lambda>c. isNotMatch nrm (nrm (trim oldText)) (c_wrong c)) (corrections (data s)),
        toneSuggestions := filter (\<lambda>t. isNotMatch nrm (nrm (trim oldText)) (t_current t)) (toneSuggestions (data s)),
        styleSuggestions := filter (\<lambda>x. isNotMatch nrm (nrm (trim oldText)) (s_current x)) (styleSuggestions (data s)),
        euphonyImprovements := filter (\<lambda>e. isNotMatch nrm (nrm (trim oldText)) (e_current e)) (euphonyImprovements (data s)),
        punctuationIssues := filter (\<lambda>p. isNotMatch nrm (nrm (trim oldText)) (p_currentSentence p)) (punctuationIssues (data s)),
        languageStyleMixing := pruneMixing nrm (nrm (trim oldText)) (languageStyleMixing (data s))\<rparr>"
  by (cases "replaceInWord h oldText newText") (simp add: handleReplace_def Let_def showMessage_def)

lemma handleReplace_failure:
  "\<not> fst (replaceInWord h oldText newText) \<Longrightarrow>
   fst (handleReplace nrm h oldText newText s) = showMessage MsgNotFound Error s"
  by (cases "replaceInWord h oldText newText") (simp add: handleReplace_def Let_def)

lemma replaceInWord_False_no_event:
  "\<not> fst (replaceInWord h oldText newText) \<Longrightarrow> snd (replaceInWord h oldText newText) = []"
  by (auto simp: replaceInWord_def Let_def split: option.splits if_splits)

lemma handleReplace_events:
  "snd (handleReplace nrm h oldText newText s) = snd (replaceInWord h oldText newText)"
  by (cases "replaceInWord h oldText newText") (simp add: handleReplace_def Let_def)

text \<open>
  C1, as claimed: after \<open>dismiss\<close>, no suggestion with the target key remains in any
  category. This fails: \<open>dismissSuggestion\<close> takes the category as an argument and prunes
  that category only. Dismissing the spelling suggestion \<open>teh\<close> leaves the tone suggestion
  and the style-mixing entry with the same key in place.
\<close>

theorem dismiss_leaves_other_categories_counterexample:
  "keyLive trim (trim (js ''teh'')) (data (dismissSuggestion trim DSpelling (js ''teh'') demoState))"
  by (simp add: keyLive_def dismissSuggestion_def isNotMatch_def Let_def demo_defs)

text \<open>
  C1, amended: after \<open>dismissSuggestion(type, text)\<close>, the category named by \<open>type\<close> holds
  exactly its former suggestions whose key is not \<open>normalize(text)\<close>, in their order; for
  \<open>mixing\<close>, the record keeps exactly those entries, becomes null when that leaves none,
  and is untouched when it has no list. Every other category, the content analysis and
  the stats are as before, and nothing but the store changes. The function has no access
  to the document: it returns a state only.
\<close>

theorem dismiss_prunes_named_category:
  fixes nrm ty textToDismiss s m cs
  defines "d \<equiv> data s"
    and "d' \<equiv> data (dismissSuggestion nrm ty textToDismiss s)"
    and "target \<equiv> nrm textToDismiss"
  shows
    "\<not> keyLiveIn nrm ty target d' \<and>
     clearCategory ty d' = clearCategory ty d \<and>
     (dismissSuggestion nrm ty textToDismiss s)\<lparr>data := data s\<rparr> = s \<and>
     (ty = DSpelling \<longrightarrow>
        corrections d' = filter (\<lambda>c. nrm (c_wrong c) \<noteq> target) (corrections d)) \<and>
     (ty = DTone \<longrightarrow>
        toneSuggestions d' = filter (\<lambda>t. nrm (t_current t) \<noteq> target) (toneSuggestions d)) \<and>
     (ty = DStyle \<longrightarrow>
        styleSuggestions d' = filter (\<lambda>x. nrm (s_current x) \<noteq> target) (styleSuggestions d)) \<and>
     (ty = DPunct \<longrightarrow>
        punctuationIssues d' =
          filter (\<lambda>p. nrm (p_currentSentence p) \<noteq> target) (punctuationIssues d)) \<and>
     (ty = DEuphony \<longrightarrow>
        euphonyImprovements d' =
          filter (\<lambda>e. nrm (e_current e) \<noteq> target) (euphonyImprovements d)) \<and>
     (ty = DMixing \<and> languageStyleMixing d = None \<longrightarrow> languageStyleMixing d' = None) \<and>
     (ty = DMixing \<and> languageStyleMixing d = Some m \<and> mix_corrections m = None \<longrightarrow>
        languageStyleMixing d' = Some m) \<and>
     (ty = DMixing \<and> languageStyleMixing d = Some m \<and> mix_corrections m = Some cs \<and>
      filter (\<lambda>c. nrm (m_current c) \<noteq> target) cs = [] \<longrightarrow>
        languageStyleMixing d' = None) \<and>
     (ty = DMixing \<and> languageStyleMixing d = Some m \<and> mix_corrections m = Some cs \<and>
      filter (\<lambda>c. nrm (m_current c) \<noteq> target) cs \<noteq> [] \<longrightarrow>
        languageStyleMixing d' =
          Some (m\<lparr>mix_corrections := Some (filter (\<lambda>c. nrm (m_current c) \<noteq> target) cs)\<rparr>))"
proof (cases ty)
  case DMixing
  have "\<not> keyLiveIn nrm DMixing target d'"
    unfolding d'_def DMixing
    by (auto simp: keyLiveIn_def dismissSuggestion_def Let_def target_def split: option.splits
             dest: pruneMixing_no_key)
  then show ?thesis using DMixing
    by (simp add: d_def d'_def target_def clearCategory_def dismissSuggestion_def Let_def
        pruneMixing_cases)
qed (simp_all add: d_def d'_def target_def keyLiveIn_def clearCategory_def
       dismissSuggestion_def Let_def isNotMatch_def list_ex_iff)

theorem dismiss_prunes_named_category_witness:
  "corrections (data (dismissSuggestion trim DSpelling (js ''teh'') twoKeyState)) =
     [\<lparr>c_wrong = js ''cat'', c_suggestions = [js ''cot''], c_position = Some 4\<rparr>] \<and>
   toneSuggestions (data (dismissSuggestion trim DSpelling (js ''teh'') twoKeyState)) =
     toneSuggestions (data twoKeyState) \<and>
   languageStyleMixing (data (dismissSuggestion trim DMixing (js ''teh'') twoKeyState)) =
     Some \<lparr>detected = True, recommendedStyle = None, reason = None,
           mix_corrections =
             Some [\<lparr>m_current = js ''cat'', m_suggestion = js ''cot'', m_type = js ''mix'',
                    m_position = Some 4\<rparr>]\<rparr> \<and>
   languageStyleMixing (data demoState) \<noteq> None \<and>
   languageStyleMixing (data (dismissSuggestion trim DMixing (js ''teh'') demoState)) = None"
proof -
  have k: "trim (js ''cat'') \<noteq> trim (js ''teh'')" "trim (js ''teh'') = trim (js ''teh'')"
    by (simp_all add: js_def trim_def isWhiteSpace_def)
  have a: "corrections (data (dismissSuggestion trim DSpelling (js ''teh'') twoKeyState)) =
     [\<lparr>c_wrong = js ''cat'', c_suggestions = [js ''cot''], c_position = Some 4\<rparr>]"
    using k dismiss_prunes_named_category[of trim DSpelling "js ''teh''" twoKeyState]
    by (simp add: twoKeyState_def demoState_def demoStore_def)
  have b: "toneSuggestions (data (dismissSuggestion trim DSpelling (js ''teh'') twoKeyState)) =
     toneSuggestions (data twoKeyState)"
    using dismiss_prunes_named_category[of trim DSpelling "js ''teh''" twoKeyState]
    by (simp add: clearCategory_def) (metis store.select_convs(2) store.surjective store.update_convs(1))
  have c: "languageStyleMixing (data (dismissSuggestion trim DMixing (js ''teh'') twoKeyState)) =
     Some \<lparr>detected = True, recommendedStyle = None, reason = None,
           mix_corrections =
             Some [\<lparr>m_current = js ''cat'', m_suggestion = js ''cot'', m_type = js ''mix'',
                    m_position = Some 4\<rparr>]\<rparr>"
    using k dismiss_prunes_named_category[of trim DMixing "js ''teh''" twoKeyState _
        "[\<lparr>m_current = js ''teh'', m_suggestion = js ''the'', m_type = js ''mix'',
           m_position = Some 0\<rparr>,
          \<lparr>m_current = js ''cat'', m_suggestion = js ''cot'', m_type = js ''mix'',
           m_position = Some 4\<rparr>]"]
    by (simp add: twoKeyState_def demoState_def demoStore_def)
  have e: "languageStyleMixing (data (dismissSuggestion trim DMixing (js ''teh'') demoState)) = None"
    using k dismiss_prunes_named_category[of trim DMixing "js ''teh''" demoState _
        "[\<lparr>m_current = js ''teh'', m_suggestion = js ''the'', m_type = js ''mix'',
           m_position = Some 0\<rparr>]"]
    by (simp add: demoState_def demoStore_def)
  have f: "languageStyleMixing (data demoState) \<noteq> None"
    by (simp add: demoState_def demoStore_def)
  from a b c e f show ?thesis by simp
qed

text \<open>
  C2: when the replace reports a match, every category holds exactly its former
  suggestions whose key is not the target \<open>normalize(oldText.trim())\<close>, in their order; the
  style-mixing record keeps exactly those entries and becomes null when that leaves none
  (it is untouched when it has no list); the content analysis and the stats are as
  before. So no suggestion with the target key remains anywhere, and the style-mixing
  record is never left present with an empty list of corrections.
\<close>

theorem apply_prunes_every_category:
  fixes nrm h oldText newText s m cs
  assumes "fst (replaceInWord h oldText newText)"
  defines "d \<equiv> data s"
    and "d' \<equiv> data (fst (handleReplace nrm h oldText newText s))"
    and "target \<equiv> nrm (trim oldText)"
  shows
    "corrections d' = filter (\<lambda>c. nrm (c_wrong c) \<noteq> target) (corrections d) \<and>
     toneSuggestions d' = filter (\<lambda>t. nrm (t_current t) \<noteq> target) (toneSuggestions d) \<and>
     styleSuggestions d' = filter (\<lambda>x. nrm (s_current x) \<noteq> target) (styleSuggestions d) \<and>
     punctuationIssues d' =
       filter (\<lambda>p. nrm (p_currentSentence p) \<noteq> target) (punctuationIssues d) \<and>
     euphonyImprovements d' =
       filter (\<lambda>e. nrm (e_current e) \<noteq> target) (euphonyImprovements d) \<and>
     (languageStyleMixing d = None \<longrightarrow> languageStyleMixing d' = None) \<and>
     (languageStyleMixing d = Some m \<and> mix_corrections m = None \<longrightarrow>
        languageStyleMixing d' = Some m) \<and>
     (languageStyleMixing d = Some m \<and> mix_corrections m = Some cs \<and>
      filter (\<lambda>c. nrm (m_current c) \<noteq> target) cs = [] \<longrightarrow>
        languageStyleMixing d' = None) \<and>
     (languageStyleMixing d = Some m \<and> mix_corrections m = Some cs \<and>
      filter (\<lambda>c. nrm (m_current c) \<noteq> target) cs \<noteq> [] \<longrightarrow>
        languageStyleMixing d' =
          Some (m\<lparr>mix_corrections := Some (filter (\<lambda>c. nrm (m_current c) \<noteq> target) cs)\<rparr>)) \<and>
     contentAnalysis d' = contentAnalysis d \<and>
     stats d' = stats d \<and>
     \<not> keyLive nrm target d' \<and>
     \<not> mixingEmptyButPresent d'"
proof -
  note success = handleReplace_success[OF assms(1), of nrm s]
  have pinned:
    "corrections d' = filter (\<lambda>c. nrm (c_wrong c) \<noteq> target) (corrections d)"
    "toneSuggestions d' = filter (\<lambda>t. nrm (t_current t) \<noteq> target) (toneSuggestions d)"
    "styleSuggestions d' = filter (\<lambda>x. nrm (s_current x) \<noteq> target) (styleSuggestions d)"
    "punctuationIssues d' =
       filter (\<lambda>p. nrm (p_currentSentence p) \<noteq> target) (punctuationIssues d)"
    "euphonyImprovements d' =
       filter (\<lambda>e. nrm (e_current e) \<noteq> target) (euphonyImprovements d)"
    "contentAnalysis d' = contentAnalysis d" "stats d' = stats d"
    "languageStyleMixing d' = pruneMixing nrm target (languageStyleMixing d)"
    unfolding d_def d'_def target_def success by (simp_all add: isNotMatch_def)
  have a: "\<not> keyLive nrm target d'"
    unfolding keyLive_def d'_def target_def success
    by (auto simp: filter_isNotMatch_no_key split: option.splits dest: pruneMixing_no_key)
  have b: "\<not> mixingEmptyButPresent d'"
    unfolding mixingEmptyButPresent_def d'_def success
    by (auto split: option.splits dest: pruneMixing_not_empty)
  from pinned a b show ?thesis by (simp add: pruneMixing_cases)
qed

theorem apply_prunes_every_category_witness:
  "fst (replaceInWord demoHost (js ''teh'') (js ''the'')) \<and>
   corrections (data (fst (handleReplace trim demoHost (js ''teh'') (js ''the'') twoKeyState))) =
     [\<lparr>c_wrong = js ''cat'', c_suggestions = [js ''cot''], c_position = Some 4\<rparr>] \<and>
   toneSuggestions (data (fst (handleReplace trim demoHost (js ''teh'') (js ''the'') twoKeyState))) = [] \<and>
   languageStyleMixing
     (data (fst (handleReplace trim demoHost (js ''teh'') (js ''the'') twoKeyState))) =
     Some \<lparr>detected = True, recommendedStyle = None, reason = None,
           mix_corrections =
             Some [\<lparr>m_current = js ''cat'', m_suggestion = js ''cot'', m_type = js ''mix'',
                    m_position = Some 4\<rparr>]\<rparr> \<and>
   stats (data (fst (handleReplace trim demoHost (js ''teh'') (js ''the'') twoKeyState))) =
     stats (data twoKeyState) \<and>
   languageStyleMixing (data demoState) \<noteq> None \<and>
   languageStyleMixing
     (data (fst (handleReplace trim demoHost (js ''teh'') (js ''the'') demoState))) = None \<and>
   keyLive trim (trim (trim (js ''teh''))) (data demoState) \<and>
   \<not> keyLive trim (trim (trim (js ''teh'')))
       (data (fst (handleReplace trim demoHost (js ''teh'') (js ''the'') demoState)))"
proof -
  have h: "fst (replaceInWord demoHost (js ''teh'') (js ''the''))"
    by (simp add: replaceInWord_def Let_def demo_defs)
  have k: "trim (js ''cat'') \<noteq> trim (trim (js ''teh''))"
    "trim (js ''teh'') = trim (trim (js ''teh''))"
    by (simp_all add: js_def trim_def isWhiteSpace_def)
  note two = apply_prunes_every_category[OF h, of trim twoKeyState _
        "[\<lparr>m_current = js ''teh'', m_suggestion = js ''the'', m_type = js ''mix'',
           m_position = Some 0\<rparr>,
          \<lparr>m_current = js ''cat'', m_suggestion = js ''cot'', m_type = js ''mix'',
           m_position = Some 4\<rparr>]"]
  note one = apply_prunes_every_category[OF h, of trim demoState _
        "[\<lparr>m_current = js ''teh'', m_suggestion = js ''the'', m_type = js ''mix'',
           m_position = Some 0\<rparr>]"]
  have t: "corrections (data (fst (handleReplace trim demoHost (js ''teh'') (js ''the'') twoKeyState))) =
       [\<lparr>c_wrong = js ''cat'', c_suggestions = [js ''cot''], c_position = Some 4\<rparr>]"
    "toneSuggestions (data (fst (handleReplace trim demoHost (js ''teh'') (js ''the'') twoKeyState))) = []"
    "languageStyleMixing
       (data (fst (handleReplace trim demoHost (js ''teh'') (js ''the'') twoKeyState))) =
     Some \<lparr>detected = True, recommendedStyle = None, reason = None,
           mix_corrections =
             Some [\<lparr>m_current = js ''cat'', m_suggestion = js ''cot'', m_type = js ''mix'',
                    m_position = Some 4\<rparr>]\<rparr>"
    "stats (data (fst (handleReplace trim demoHost (js ''teh'') (js ''the'') twoKeyState))) =
     stats (data twoKeyState)"
    using k two by (simp_all add: twoKeyState_def demoState_def demoStore_def)
  have o: "languageStyleMixing
       (data (fst (handleReplace trim demoHost (js ''teh'') (js ''the'') demoState))) = None"
    "\<not> keyLive trim (trim (trim (js ''teh'')))
       (data (fst (handleReplace trim demoHost (js ''teh'') (js ''the'') demoState)))"
    using k one by (simp_all add: demoState_def demoStore_def)
  have d: "languageStyleMixing (data demoState) \<noteq> None"
    "keyLive trim (trim (trim (js ''teh''))) (data demoState)"
    using k by (simp_all add: keyLive_def demoState_def demoStore_def)
  from h t o d show ?thesis by simp
qed

text \<open>
  C3: when the search finds no range for the text, the replace reports \<open>false\<close>, the store
  is exactly as before (only the message changes), and the document is not touched.
\<close>

theorem apply_without_match_leaves_store:
  assumes "searchItems h (trim oldText) (\<not> hasWhiteSpace (trim oldText)) = Some 0"
  shows "fst (replaceInWord h oldText newText) = False \<and>
         data (fst (handleReplace nrm h oldText newText s)) = data s \<and>
         fst (handleReplace nrm h oldText newText s) = showMessage MsgNotFound Error s \<and>
         snd (handleReplace nrm h oldText newText s) = []"
proof -
  have f: "\<not> fst (replaceInWord h oldText newText)"
    using assms by (simp add: replaceInWord_def Let_def)
  show ?thesis
    using f handleReplace_failure[OF f, of nrm s] replaceInWord_False_no_event[OF f]
    by (simp add: handleReplace_events showMessage_def)
qed

theorem apply_without_match_leaves_store_witness:
  "searchItems demoHost (trim (js ''cat'')) (\<not> hasWhiteSpace (trim (js ''cat''))) = Some 0 \<and>
   fst (replaceInWord demoHost (js ''cat'') (js ''dog'')) = False \<and>
   data (fst (handleReplace trim demoHost (js ''cat'') (js ''dog'') demoState)) = demoStore"
proof -
  have h: "searchItems demoHost (trim (js ''cat'')) (\<not> hasWhiteSpace (trim (js ''cat''))) = Some 0"
    by (simp add: demo_defs)
  show ?thesis
    using h apply_without_match_leaves_store[OF h, of "js ''dog''" trim demoState]
    by (simp add: demoState_def showMessage_def)
qed

section \<open>The check cycle: proofs\<close>

lemma trim_Nil [simp]: "trim [] = []"
  by (simp add: trim_def)

lemma tasks_length: "length (tasks s) = 4"
  by (simp add: tasks_def)

lemma checkSpelling_no_key:
  "apiKey s = [] \<Longrightarrow>
   checkSpelling e s = ((showMessage MsgNeedApiKey Error s)\<lparr>activeModal := ModalSettings\<rparr>, [])"
  by (simp add: checkSpelling_def)

lemma checkSpelling_no_text:
  "apiKey s \<noteq> [] \<Longrightarrow> trim (getTextFromWord (readWord e)) = [] \<Longrightarrow>
   checkSpelling e s = (showMessage MsgSelectText Error s, [DocRead])"
  by (auto simp: checkSpelling_def Let_def)

lemma checkSpelling_run:
  "apiKey s \<noteq> [] \<Longrightarrow> trim (getTextFromWord (readWord e)) \<noteq> [] \<Longrightarrow>
   checkSpelling e s =
     (let text = getTextFromWord (readWord e);
          d = snd (runTasks e text (tasks s) resetStore);
          issued = concat (map (providerCalls e) (tasks s));
          done = s\<lparr>isLoading := False, loadingText := LoadingNone, data := d\<rparr>
      in case joinTasks e text s of
           Fulfilled results \<Rightarrow>
             (done,
              [DocRead, DocClearHighlights] @ issued @
              (if length (highlightItems results) > 0
               then highlightMultipleInWord (highlightItems results) else []))
         | Rejected err \<Rightarrow>
             (showMessage (errorMessage err) Error done,
              [DocRead, DocClearHighlights] @ issued))"
  by (auto simp: checkSpelling_def Let_def)

text \<open>
  C8: without a credential the check is refused at once: nothing is read from the document,
  no provider call is issued, and the store is as before. With a credential and a text
  that is empty after trimming, the document has been read and nothing else happens: no
  provider call, no clearing of highlights, no reset of the store.
\<close>

theorem check_refusals:
  "(apiKey s = [] \<longrightarrow>
      snd (checkSpelling e s) = [] \<and> data (fst (checkSpelling e s)) = data s) \<and>
   (apiKey s \<noteq> [] \<and> trim (getTextFromWord (readWord e)) = [] \<longrightarrow>
      snd (checkSpelling e s) = [DocRead] \<and> data (fst (checkSpelling e s)) = data s)"
  by (simp add: checkSpelling_no_key checkSpelling_no_text showMessage_def)

text \<open>
  C10: when the document read fails, \<open>getTextFromWord\<close> gives the empty string; the check
  then behaves exactly as for an empty document, and refuses with the message that asks
  for a selection.
\<close>

theorem read_failure_is_empty_document:
  "getTextFromWord ReadThrows = [] \<and>
   checkSpelling (e\<lparr>readWord := ReadThrows\<rparr>) s = checkSpelling (e\<lparr>readWord := ReadOk [] []\<rparr>) s \<and>
   (apiKey s \<noteq> [] \<longrightarrow>
      checkSpelling (e\<lparr>readWord := ReadThrows\<rparr>) s = (showMessage MsgSelectText Error s, [DocRead]))"
  by (simp add: checkSpelling_def getTextFromWord_def normalizeLineBreaks_def)

lemma callTimes_append: "callTimes b (xs @ ys) = callTimes b xs @ callTimes b ys"
  by (induction b xs rule: callTimes.induct) auto

lemma batchHighlights_append: "batchHighlights (xs @ ys) = batchHighlights xs @ batchHighlights ys"
  by (induction xs rule: batchHighlights.induct) auto

lemma callTimes_highlightMultiple [simp]: "callTimes b (highlightMultipleInWord items) = []"
  by (simp add: highlightMultipleInWord_def)

lemma issued_calls:
  "callTimes b (concat (map (providerCalls e) (tasks s))) =
     (case b of
        Main \<Rightarrow> [0]
      | Tone \<Rightarrow> (if selectedTone s \<noteq> [] then [200 + timerLate e Tone] else [])
      | Style \<Rightarrow> (if selectedStyle s \<noteq> StyleNone then [400 + timerLate e Style] else [])
      | Content \<Rightarrow> [600 + timerLate e Content])"
  by (cases b) (simp_all add: tasks_def providerCalls_def)

lemma cycle_calls:
  assumes "apiKey s \<noteq> []" "trim (getTextFromWord (readWord e)) \<noteq> []"
  shows "callTimes b (snd (checkSpelling e s)) = callTimes b (concat (map (providerCalls e) (tasks s)))"
  using assms
  by (simp add: checkSpelling_run Let_def callTimes_append split: outcome.splits)

lemma runTasks_tasks:
  "runTasks e text (tasks s) d0 =
     (let r0 = performMainCheck (provider e Main) text d0;
          r1 = (if selectedTone s \<noteq> [] then performToneCheck (provider e Tone) (snd r0)
                else (Fulfilled VEmptyArray, snd r0));
          r2 = (if selectedStyle s \<noteq> StyleNone then performStyleCheck (provider e Style) (snd r1)
                else (Fulfilled VEmptyArray, snd r1));
          r3 = analyzeContentLogic (provider e Content) (snd r2)
      in ([fst r0, fst r1, fst r2, fst r3], snd r3))"
  by (simp add: tasks_def runTask_def perform_def Let_def split: prod.splits)

lemma promiseAll_Fulfilled_iff:
  "promiseAll ps = Fulfilled vs \<longleftrightarrow> map snd ps = map Fulfilled vs"
proof (induction ps arbitrary: vs)
  case Nil
  show ?case by (auto simp: promiseAll_def)
next
  case (Cons p ps)
  obtain t r where p: "p = (t, r)" by (cases p)
  show ?case
  proof (cases r)
    case (Fulfilled v)
    then show ?thesis
      using Cons.IH[of "tl vs"] p
      by (cases vs) (auto simp: promiseAll_def split: option.splits)
  next
    case (Rejected err)
    then show ?thesis
      using p by (cases vs) (auto simp: promiseAll_def split: option.splits)
  qed
qed

lemma length_runTasks: "length (fst (runTasks e text ts d)) = length ts"
  by (induction ts arbitrary: d) (simp_all add: Let_def case_prod_unfold)

lemma join_outcomes:
  "joinTasks e text s = Fulfilled results \<longleftrightarrow>
   fst (runTasks e text (tasks s) resetStore) = map Fulfilled results"
  by (simp add: joinTasks_def promiseAll_Fulfilled_iff length_runTasks)

lemma main_cells:
  "fst (performMainCheck c text d) = Fulfilled v \<Longrightarrow> corrections d = [] \<Longrightarrow>
   asCorrections v = corrections (snd (performMainCheck c text d))"
  by (auto simp: performMainCheck_def asCorrections_def split: outcome.splits option.splits sum.splits)

lemma main_keeps:
  "toneSuggestions (snd (performMainCheck c text d)) = toneSuggestions d"
  "styleSuggestions (snd (performMainCheck c text d)) = styleSuggestions d"
  "contentAnalysis (snd (performMainCheck c text d)) = contentAnalysis d"
  by (auto simp: performMainCheck_def split: outcome.splits option.splits sum.splits)

lemma tone_cells:
  "fst (performToneCheck c d) = Fulfilled v \<Longrightarrow> toneSuggestions d = [] \<Longrightarrow>
   asTones v = toneSuggestions (snd (performToneCheck c d))"
  by (auto simp: performToneCheck_def asTones_def split: outcome.splits option.splits sum.splits)

lemma tone_keeps:
  "corrections (snd (performToneCheck c d)) = corrections d"
  "styleSuggestions (snd (performToneCheck c d)) = styleSuggestions d"
  "punctuationIssues (snd (performToneCheck c d)) = punctuationIssues d"
  "euphonyImprovements (snd (performToneCheck c d)) = euphonyImprovements d"
  "languageStyleMixing (snd (performToneCheck c d)) = languageStyleMixing d"
  "contentAnalysis (snd (performToneCheck c d)) = contentAnalysis d"
  "stats (snd (performToneCheck c d)) = stats d"
  by (auto simp: performToneCheck_def split: outcome.splits option.splits sum.splits)

lemma style_cells:
  "fst (performStyleCheck c d) = Fulfilled v \<Longrightarrow> styleSuggestions d = [] \<Longrightarrow>
   asStyles v = styleSuggestions (snd (performStyleCheck c d))"
  by (auto simp: performStyleCheck_def asStyles_def split: outcome.splits option.splits sum.splits)

lemma style_keeps:
  "corrections (snd (performStyleCheck c d)) = corrections d"
  "toneSuggestions (snd (performStyleCheck c d)) = toneSuggestions d"
  "punctuationIssues (snd (performStyleCheck c d)) = punctuationIssues d"
  "euphonyImprovements (snd (performStyleCheck c d)) = euphonyImprovements d"
  "languageStyleMixing (snd (performStyleCheck c d)) = languageStyleMixing d"
  "contentAnalysis (snd (performStyleCheck c d)) = contentAnalysis d"
  "stats (snd (performStyleCheck c d)) = stats d"
  by (auto simp: performStyleCheck_def split: outcome.splits option.splits sum.splits)

lemma content_keeps:
  "corrections (snd (analyzeContentLogic c d)) = corrections d"
  "toneSuggestions (snd (analyzeContentLogic c d)) = toneSuggestions d"
  "styleSuggestions (snd (analyzeContentLogic c d)) = styleSuggestions d"
  "punctuationIssues (snd (analyzeContentLogic c d)) = punctuationIssues d"
  "euphonyImprovements (snd (analyzeContentLogic c d)) = euphonyImprovements d"
  "languageStyleMixing (snd (analyzeContentLogic c d)) = languageStyleMixing d"
  "stats (snd (analyzeContentLogic c d)) = stats d"
  by (auto simp: analyzeContentLogic_def Let_def split: outcome.splits option.splits)

lemmas keeps = main_keeps tone_keeps style_keeps content_keeps

lemma items_of_store:
  assumes "joinTasks e text s = Fulfilled results"
  shows "highlightItems results = batchOf (snd (runTasks e text (tasks s) resetStore))"
proof -
  let ?r0 = "performMainCheck (provider e Main) text resetStore"
  let ?r1 = "if selectedTone s \<noteq> [] then performToneCheck (provider e Tone) (snd ?r0)
             else (Fulfilled VEmptyArray, snd ?r0)"
  let ?r2 = "if selectedStyle s \<noteq> StyleNone then performStyleCheck (provider e Style) (snd ?r1)
             else (Fulfilled VEmptyArray, snd ?r1)"
  let ?r3 = "analyzeContentLogic (provider e Content) (snd ?r2)"
  from assms have outs: "[fst ?r0, fst ?r1, fst ?r2, fst ?r3] = map Fulfilled results"
    by (simp add: join_outcomes runTasks_tasks Let_def)
  then obtain v0 v1 v2 v3 where res: "results = [v0, v1, v2, v3]"
    and f0: "fst ?r0 = Fulfilled v0" and f1: "fst ?r1 = Fulfilled v1"
    and f2: "fst ?r2 = Fulfilled v2"
    by (cases results; simp; cases "tl results"; simp; cases "tl (tl results)"; simp;
        cases "tl (tl (tl results))"; simp) 
  have c: "asCorrections v0 = corrections (snd ?r0)"
    using main_cells[OF f0] by (simp add: resetStore_def)
  have t: "asTones v1 = toneSuggestions (snd ?r1)"
  proof (cases "selectedTone s \<noteq> []")
    case True
    then show ?thesis using f1 tone_cells[of "provider e Tone" "snd ?r0" v1]
      by (simp add: keeps resetStore_def)
  next
    case False
    then show ?thesis using f1 by (auto simp: asTones_def keeps resetStore_def)
  qed
  have y: "asStyles v2 = styleSuggestions (snd ?r2)"
  proof (cases "selectedStyle s \<noteq> StyleNone")
    case True
    then have "styleSuggestions (snd ?r1) = []"
      by (simp add: keeps resetStore_def)
    with True show ?thesis using f2 style_cells[of "provider e Style" "snd ?r1" v2]
      by simp
  next
    case False
    then show ?thesis using f2 by (auto simp: asStyles_def keeps resetStore_def)
  qed
  have "corrections (snd ?r3) = corrections (snd ?r0)"
       "toneSuggestions (snd ?r3) = toneSuggestions (snd ?r1)"
       "styleSuggestions (snd ?r3) = styleSuggestions (snd ?r2)"
    by (simp_all add: keeps)
  with c t y show ?thesis
    by (simp add: highlightItems_def batchOf_def resultAt_def res runTasks_tasks Let_def)
qed









lemma cycle_data:
  assumes "apiKey s \<noteq> []" "trim (getTextFromWord (readWord e)) \<noteq> []"
  shows "data (fst (checkSpelling e s)) =
         snd (runTasks e (getTextFromWord (readWord e)) (tasks s) resetStore)"
  using assms by (simp add: checkSpelling_run Let_def showMessage_def split: outcome.splits)

lemma cycle_highlights:
  assumes "apiKey s \<noteq> []" "trim (getTextFromWord (readWord e)) \<noteq> []"
    and "joinTasks e (getTextFromWord (readWord e)) s = Fulfilled results"
  shows "batchHighlights (snd (checkSpelling e s)) =
         (if batchOf (data (fst (checkSpelling e s))) = [] then []
          else [batchOf (data (fst (checkSpelling e s)))])"
proof -
  have noBatch: "batchHighlights (concat (map (providerCalls e) (tasks s))) = []"
    by (simp add: tasks_def providerCalls_def)
  have items: "highlightItems results = batchOf (data (fst (checkSpelling e s)))"
    using items_of_store[OF assms(3)] cycle_data[OF assms(1,2)] by simp
  have "snd (checkSpelling e s) =
        [DocRead, DocClearHighlights] @ concat (map (providerCalls e) (tasks s)) @
        (if length (highlightItems results) > 0
         then highlightMultipleInWord (highlightItems results) else [])"
    using assms by (simp add: checkSpelling_run Let_def)
  then show ?thesis
    using noBatch items by (simp add: batchHighlights_append highlightMultipleInWord_def)
qed

lemma cycle_rejected:
  assumes "apiKey s \<noteq> []" "trim (getTextFromWord (readWord e)) \<noteq> []"
    and "joinTasks e (getTextFromWord (readWord e)) s = Rejected err"
  shows "batchHighlights (snd (checkSpelling e s)) = [] \<and>
         message (fst (checkSpelling e s)) = Some (errorMessage err, Error)"
  using assms
  by (simp add: checkSpelling_run Let_def showMessage_def batchHighlights_append
      tasks_def providerCalls_def)

lemma firstRejection_None:
  "firstRejection ps = None \<longleftrightarrow> list_all (\<lambda>p. fulfilled (snd p)) ps"
  by (induction ps rule: firstRejection.induct)
     (auto simp: fulfilled_def split: option.splits)



lemma join_all_fulfilled:
  "list_all fulfilled (fst (runTasks e doc (tasks s) resetStore)) \<longleftrightarrow>
   (\<exists>results. joinTasks e doc s = Fulfilled results)"
proof -
  let ?ps = "zip (map (settleTime e) (tasks s)) (fst (runTasks e doc (tasks s) resetStore))"
  have "list_all (\<lambda>p. fulfilled (snd p)) ?ps =
        list_all fulfilled (map snd ?ps)"
    by (simp add: list_all_iff)
  also have "map snd ?ps = fst (runTasks e doc (tasks s) resetStore)"
    by (simp add: length_runTasks)
  finally have "firstRejection ?ps = None \<longleftrightarrow>
      list_all fulfilled (fst (runTasks e doc (tasks s) resetStore))"
    by (simp add: firstRejection_None)
  then show ?thesis
    by (cases "firstRejection ?ps") (auto simp: joinTasks_def promiseAll_def)
qed




lemma demo_runs:
  "apiKey demoState \<noteq> []" "apiKey formalState \<noteq> []"
  "trim (getTextFromWord (readWord demoEnv)) \<noteq> []"
  "trim (getTextFromWord (readWord cleanEnv)) \<noteq> []"
  "trim (getTextFromWord (readWord nullMainEnv)) \<noteq> []"
  "trim (getTextFromWord (readWord malformedEnv)) \<noteq> []"
  by (simp_all add: env_defs)

theorem check_refusals_witness:
  "apiKey (demoState\<lparr>apiKey := []\<rparr>) = [] \<and>
   snd (checkSpelling demoEnv (demoState\<lparr>apiKey := []\<rparr>)) = [] \<and>
   data (fst (checkSpelling demoEnv (demoState\<lparr>apiKey := []\<rparr>))) = demoStore \<and>
   apiKey demoState \<noteq> [] \<and>
   trim (getTextFromWord (readWord (demoEnv\<lparr>readWord := ReadOk (js '' '') (js ''  '')\<rparr>))) = [] \<and>
   snd (checkSpelling (demoEnv\<lparr>readWord := ReadOk (js '' '') (js ''  '')\<rparr>) demoState) = [DocRead] \<and>
   data (fst (checkSpelling (demoEnv\<lparr>readWord := ReadOk (js '' '') (js ''  '')\<rparr>) demoState)) = demoStore"
proof -
  have a: "apiKey (demoState\<lparr>apiKey := []\<rparr>) = []" by simp
  have b: "apiKey demoState \<noteq> []" by (rule demo_runs)
  have c: "trim (getTextFromWord (readWord (demoEnv\<lparr>readWord := ReadOk (js '' '') (js ''  '')\<rparr>))) = []"
    by (simp add: env_defs)
  have d: "data demoState = demoStore" by (simp add: demoState_def)
  show ?thesis
    using a b c d check_refusals[of "demoState\<lparr>apiKey := []\<rparr>" demoEnv]
      check_refusals[of demoState "demoEnv\<lparr>readWord := ReadOk (js '' '') (js ''  '')\<rparr>"]
    by simp
qed

theorem read_failure_is_empty_document_witness:
  "apiKey demoState \<noteq> [] \<and>
   checkSpelling (demoEnv\<lparr>readWord := ReadThrows\<rparr>) demoState =
     (showMessage MsgSelectText Error demoState, [DocRead]) \<and>
   checkSpelling (demoEnv\<lparr>readWord := ReadOk [] []\<rparr>) demoState =
     (showMessage MsgSelectText Error demoState, [DocRead])"
  using demo_runs(1) read_failure_is_empty_document[of demoEnv demoState]
  by auto

text \<open>
  C6: a cycle has four tasks. The main branch calls the provider at once. With no tone
  selected, the tone task is the resolved empty list: it settles at once and calls no
  provider; with a tone selected, its one provider call is issued 200 ms after the fan-out
  or later. The style task is the same with 400 ms and a style other than \<open>none\<close>. The
  content-analysis call is always issued, 600 ms after the fan-out or later.
\<close>

theorem staggered_branches:
  assumes "apiKey s \<noteq> []" and "trim (getTextFromWord (readWord e)) \<noteq> []"
  shows "length (tasks s) = 4 \<and>
     callTimes Main (snd (checkSpelling e s)) = [0] \<and>
     (selectedTone s = [] \<longrightarrow>
        tasks s ! 1 = ResolvedEmpty \<and>
        runTask e text (tasks s ! 1) d = (Fulfilled VEmptyArray, d) \<and>
        settleTime e (tasks s ! 1) = 0 \<and>
        callTimes Tone (snd (checkSpelling e s)) = []) \<and>
     (selectedTone s \<noteq> [] \<longrightarrow>
        callTimes Tone (snd (checkSpelling e s)) = [200 + timerLate e Tone]) \<and>
     list_all (\<lambda>t. 200 \<le> t) (callTimes Tone (snd (checkSpelling e s))) \<and>
     (selectedStyle s = StyleNone \<longrightarrow>
        tasks s ! 2 = ResolvedEmpty \<and>
        runTask e text (tasks s ! 2) d = (Fulfilled VEmptyArray, d) \<and>
        settleTime e (tasks s ! 2) = 0 \<and>
        callTimes Style (snd (checkSpelling e s)) = []) \<and>
     (selectedStyle s \<noteq> StyleNone \<longrightarrow>
        callTimes Style (snd (checkSpelling e s)) = [400 + timerLate e Style]) \<and>
     list_all (\<lambda>t. 400 \<le> t) (callTimes Style (snd (checkSpelling e s))) \<and>
     callTimes Content (snd (checkSpelling e s)) = [600 + timerLate e Content] \<and>
     list_all (\<lambda>t. 600 \<le> t) (callTimes Content (snd (checkSpelling e s)))"
proof -
  have tone: "selectedTone s = [] \<Longrightarrow> tasks s ! Suc 0 = ResolvedEmpty"
    and style: "selectedStyle s = StyleNone \<Longrightarrow> tasks s ! 2 = ResolvedEmpty"
    by (simp_all add: tasks_def)
  show ?thesis
    by (simp add: cycle_calls[OF assms] issued_calls tasks_length tone style runTask_def
        settleTime_def)
qed

theorem staggered_branches_witness:
  "apiKey formalState \<noteq> [] \<and> trim (getTextFromWord (readWord demoEnv)) \<noteq> [] \<and>
   length (tasks formalState) = 4 \<and>
   callTimes Main (snd (checkSpelling demoEnv formalState)) = [0] \<and>
   callTimes Tone (snd (checkSpelling demoEnv formalState)) = [203] \<and>
   callTimes Style (snd (checkSpelling demoEnv formalState)) = [] \<and>
   callTimes Content (snd (checkSpelling demoEnv formalState)) = [603]"
proof -
  have t: "selectedTone formalState \<noteq> []" "selectedStyle formalState = StyleNone"
    by (simp_all add: formalState_def demoState_def js_def)
  have l: "timerLate demoEnv Tone = 3" "timerLate demoEnv Content = 3"
    by (simp_all add: demoEnv_def)
  show ?thesis
    using t l demo_runs(2,3) staggered_branches[OF demo_runs(2,3)]
    by simp
qed

text \<open>
  C7, as claimed: a successful cycle issues exactly one batched highlight call. This fails
  for a cycle that finds nothing: the source calls \<open>highlightMultipleInWord\<close> only when
  there are items, so a document without findings gets no call.
\<close>

theorem batch_highlight_clean_document_counterexample:
  "apiKey demoState \<noteq> [] \<and> trim (getTextFromWord (readWord cleanEnv)) \<noteq> [] \<and>
   joinTasks cleanEnv (getTextFromWord (readWord cleanEnv)) demoState =
     Fulfilled [VCorrections [], VEmptyArray, VEmptyArray, VUndefined] \<and>
   batchHighlights (snd (checkSpelling cleanEnv demoState)) = []"
proof -
  have j: "joinTasks cleanEnv (getTextFromWord (readWord cleanEnv)) demoState =
     Fulfilled [VCorrections [], VEmptyArray, VEmptyArray, VUndefined]"
    by (simp add: join_outcomes runTasks_tasks Let_def performMainCheck_def
        analyzeContentLogic_def mapOrEmpty_def mixingOf_def cleanEnv_def demoEnv_def cleanResponse_def demoState_def)
  have "batchOf (data (fst (checkSpelling cleanEnv demoState))) = []"
    unfolding cycle_data[OF demo_runs(1,4)]
    by (simp add: batchOf_def runTasks_tasks Let_def performMainCheck_def
        analyzeContentLogic_def mapOrEmpty_def mixingOf_def cleanEnv_def demoEnv_def cleanResponse_def demoState_def
        resetStore_def)
  then show ?thesis
    using j demo_runs(1,4) cycle_highlights[OF demo_runs(1,4) j] by simp
qed

text \<open>
  C7, amended: a successful cycle issues at most one batched highlight call: none when
  the spelling, tone and style results are all empty, else exactly one, whose items are
  the matching-field texts of the stored spelling, tone and style results, in this order
  and with their colours. Punctuation, euphony and style-mixing suggestions are not among
  them.
\<close>

theorem one_batch_of_spelling_tone_style:
  assumes "apiKey s \<noteq> []" and "trim (getTextFromWord (readWord e)) \<noteq> []"
    and "joinTasks e (getTextFromWord (readWord e)) s = Fulfilled results"
  shows "batchHighlights (snd (checkSpelling e s)) =
         (if batchOf (data (fst (checkSpelling e s))) = [] then []
          else [batchOf (data (fst (checkSpelling e s)))])"
  using assms by (rule cycle_highlights)

theorem one_batch_of_spelling_tone_style_witness:
  "apiKey formalState \<noteq> [] \<and> trim (getTextFromWord (readWord demoEnv)) \<noteq> [] \<and>
   joinTasks demoEnv (getTextFromWord (readWord demoEnv)) formalState =
     Fulfilled
      [VCorrections [\<lparr>c_wrong = js ''teh'', c_suggestions = [js ''the''], c_position = Some 0\<rparr>],
       VTones [\<lparr>t_current = js ''cat'', t_suggestion = js ''feline'', t_reason = js ''formal'',
                t_position = Some 4\<rparr>],
       VEmptyArray, VUndefined] \<and>
   batchHighlights (snd (checkSpelling demoEnv formalState)) =
     [[\<lparr>h_text = js ''teh'', h_color = js ''#fee2e2'', h_position = Some 0\<rparr>,
       \<lparr>h_text = js ''cat'', h_color = js ''#fef3c7'', h_position = Some 4\<rparr>]]"
proof -
  have t: "selectedTone formalState \<noteq> []" "selectedStyle formalState = StyleNone"
    by (simp_all add: formalState_def demoState_def js_def)
  have j: "joinTasks demoEnv (getTextFromWord (readWord demoEnv)) formalState =
     Fulfilled
      [VCorrections [\<lparr>c_wrong = js ''teh'', c_suggestions = [js ''the''], c_position = Some 0\<rparr>],
       VTones [\<lparr>t_current = js ''cat'', t_suggestion = js ''feline'', t_reason = js ''formal'',
                t_position = Some 4\<rparr>],
       VEmptyArray, VUndefined]"
    using t by (simp add: join_outcomes runTasks_tasks Let_def performMainCheck_def performToneCheck_def
        analyzeContentLogic_def mapOrEmpty_def mixingOf_def orZero_def demoEnv_def tehResponse_def)
  have b: "batchOf (data (fst (checkSpelling demoEnv formalState))) =
     [\<lparr>h_text = js ''teh'', h_color = js ''#fee2e2'', h_position = Some 0\<rparr>,
      \<lparr>h_text = js ''cat'', h_color = js ''#fef3c7'', h_position = Some 4\<rparr>]"
    unfolding cycle_data[OF demo_runs(2,3)] using t
    by (simp add: batchOf_def runTasks_tasks Let_def performMainCheck_def performToneCheck_def
        analyzeContentLogic_def mapOrEmpty_def mixingOf_def orZero_def demoEnv_def tehResponse_def resetStore_def)
  show ?thesis
    using j b demo_runs(2,3) one_batch_of_spelling_tone_style[OF demo_runs(2,3) j] by simp
qed




text \<open>A provider call that rejects has the same effect as a reply of the wrong shape.\<close>

lemma rejected_main_skips_highlight:
  assumes "apiKey s \<noteq> []" and "trim (getTextFromWord (readWord e)) \<noteq> []"
    and "provider e Main = Rejected err"
  shows "batchHighlights (snd (checkSpelling e s)) = [] \<and>
         (\<exists>m. message (fst (checkSpelling e s)) = Some (m, Error))"
proof -
  have "\<not> list_all fulfilled (fst (runTasks e (getTextFromWord (readWord e)) (tasks s) resetStore))"
    using assms(3) by (simp add: runTasks_tasks Let_def performMainCheck_def fulfilled_def)
  then obtain err' where "joinTasks e (getTextFromWord (readWord e)) s = Rejected err'"
    unfolding join_all_fulfilled by (cases "joinTasks e (getTextFromWord (readWord e)) s") auto
  from cycle_rejected[OF assms(1,2) this] show ?thesis by blast
qed

section \<open>The hover debouncer: proofs\<close>

lemma handleHighlight_armed:
  assumes "armed h rt" and "fst h \<le> now"
  shows "armed (now, text, color) (handleHighlight now text color rt) \<and>
         calls (handleHighlight now text color rt) =
           calls rt @ (if fst h + 300 \<le> now then [afterDelay 300 h] else [])"
  using assms
  by (auto simp: armed_def handleHighlight_def advance_def clearTimeout_def setTimeout_def
      timerDue_def afterDelay_def Let_def split: option.splits)

lemma handleHighlight_initial:
  "armed (now, text, color) (handleHighlight now text color initialRuntime) \<and>
   calls (handleHighlight now text color initialRuntime) = []"
  by (simp add: armed_def handleHighlight_def advance_def clearTimeout_def setTimeout_def
      initialRuntime_def Let_def)

lemma quiesce_armed: "armed h rt \<Longrightarrow> calls (quiesce rt) = calls rt @ [afterDelay 300 h]"
  by (auto simp: armed_def quiesce_def afterDelay_def split: option.splits)

lemma hovers_armed:
  "armed h rt \<Longrightarrow> sorted (map fst (h # hs)) \<Longrightarrow>
   calls (quiesce (hovers hs rt)) = calls rt @ map (afterDelay 300) (lastOfBursts 300 (h # hs))"
proof (induction hs arbitrary: h rt)
  case Nil
  then show ?case by (simp add: quiesce_armed)
next
  case (Cons h' hs)
  obtain now tx cl where h': "h' = (now, tx, cl)" by (cases h')
  have le: "fst h \<le> now" using Cons.prems(2) h' by simp
  have srt: "sorted (map fst (h' # hs))" using Cons.prems(2) by simp
  note step = handleHighlight_armed[OF Cons.prems(1) le, of tx cl]
  have "calls (quiesce (hovers hs (handleHighlight now tx cl rt))) =
        calls (handleHighlight now tx cl rt) @
          map (afterDelay 300) (lastOfBursts 300 (h' # hs))"
    using Cons.IH[of h' "handleHighlight now tx cl rt"] step srt h' by simp
  then show ?case using step h' by simp
qed

lemma adapterCalls_eq:
  "sorted (map fst hs) \<Longrightarrow> adapterCalls hs = map (afterDelay 300) (lastOfBursts 300 hs)"
proof (cases hs)
  case Nil
  then show ?thesis by (simp add: adapterCalls_def quiesce_def initialRuntime_def)
next
  case (Cons h hs')
  assume s: "sorted (map fst hs)"
  obtain now tx cl where h: "h = (now, tx, cl)" by (cases h)
  show ?thesis
    using hovers_armed[of h "handleHighlight now tx cl initialRuntime" hs']
      handleHighlight_initial[of now tx cl] s Cons h
    by (simp add: adapterCalls_def)
qed

lemma lastOfBursts_hd:
  "sorted (map fst (h # hs)) \<Longrightarrow>
   lastOfBursts gap (h # hs) \<noteq> [] \<and> fst h \<le> fst (hd (lastOfBursts gap (h # hs)))"
proof (induction hs arbitrary: h)
  case Nil
  then show ?case by simp
next
  case (Cons h' hs)
  have le: "fst h \<le> fst h'" using Cons.prems by simp
  have "sorted (map fst (h' # hs))" using Cons.prems by simp
  from Cons.IH[OF this] have ih: "lastOfBursts gap (h' # hs) \<noteq> []"
    "fst h' \<le> fst (hd (lastOfBursts gap (h' # hs)))" by simp_all
  show ?case
  proof (cases "fst h + gap \<le> fst h'")
    case True
    then show ?thesis by simp
  next
    case False
    then show ?thesis using ih le by simp
  qed
qed

lemma spaced_lastOfBursts:
  "sorted (map fst hs) \<Longrightarrow> spaced gap (map fst (lastOfBursts gap hs))"
proof (induction gap hs rule: lastOfBursts.induct)
  case (1 gap h h' hs)
  have srt: "sorted (map fst (h' # hs))" using 1 by simp
  show ?case
  proof (cases "fst h + gap \<le> fst h'")
    case True
    obtain k ks where k: "lastOfBursts gap (h' # hs) = k # ks" and "fst h' \<le> fst k"
      using lastOfBursts_hd[OF srt, of gap] by (cases "lastOfBursts gap (h' # hs)") auto
    then show ?thesis using 1 True srt by simp
  next
    case False
    then show ?thesis using 1 srt by simp
  qed
qed simp_all

lemma spaced_shift: "spaced gap (map fst (map (afterDelay d) hs)) = spaced gap (map fst hs)"
  by (induction hs rule: induct_list012) (auto simp: afterDelay_def)

lemma lastOfBursts_burst:
  "hs \<noteq> [] \<Longrightarrow> withinGap gap hs \<Longrightarrow> lastOfBursts gap hs = [last hs]"
  by (induction gap hs rule: lastOfBursts.induct) auto

lemma three_hovers_one_call: "adapterCalls threeHovers = [(550, js ''dog'', js ''#ccfbf1'')]"
  by code_simp

text \<open>
  C9: for hovers in time order, the calls that reach the adapter are exactly the hovers
  followed by at least 300 ms without a hover, each 300 ms after its hover; so two calls
  are never less than 300 ms apart. When every hover comes less than 300 ms after the one
  before, there is exactly one call, for the last hover. A hover that arrives while a timer
  is pending cancels it without a call and schedules its own.
\<close>

theorem hover_debounce:
  assumes "sorted (map fst hs)"
  shows "adapterCalls hs = map (afterDelay 300) (lastOfBursts 300 hs) \<and>
         spaced 300 (map fst (adapterCalls hs)) \<and>
         (hs \<noteq> [] \<and> withinGap 300 hs \<longrightarrow> adapterCalls hs = [afterDelay 300 (last hs)]) \<and>
         (armed h rt \<and> fst h \<le> now \<and> now < fst h + 300 \<longrightarrow>
            armed (now, tx, cl) (handleHighlight now tx cl rt) \<and>
            calls (handleHighlight now tx cl rt) = calls rt)"
proof -
  have eq: "adapterCalls hs = map (afterDelay 300) (lastOfBursts 300 hs)"
    using assms by (rule adapterCalls_eq)
  have sp: "spaced 300 (map fst (adapterCalls hs))"
    unfolding eq spaced_shift using assms by (rule spaced_lastOfBursts)
  have burst: "hs \<noteq> [] \<and> withinGap 300 hs \<longrightarrow> adapterCalls hs = [afterDelay 300 (last hs)]"
    by (simp add: eq lastOfBursts_burst)
  have step: "armed h rt \<and> fst h \<le> now \<and> now < fst h + 300 \<longrightarrow>
      armed (now, tx, cl) (handleHighlight now tx cl rt) \<and>
      calls (handleHighlight now tx cl rt) = calls rt"
    using handleHighlight_armed[of h rt now tx cl] by auto
  from eq sp burst step show ?thesis by blast
qed

theorem hover_debounce_witness:
  "sorted (map fst threeHovers) \<and> threeHovers \<noteq> [] \<and> withinGap 300 threeHovers \<and>
   adapterCalls threeHovers = [(550, js ''dog'', js ''#ccfbf1'')] \<and>
   armed (0, js ''teh'', js ''#fee2e2'') (handleHighlight 0 (js ''teh'') (js ''#fee2e2'') initialRuntime) \<and>
   calls (handleHighlight 100 (js ''cat'') (js ''#fef3c7'')
           (handleHighlight 0 (js ''teh'') (js ''#fee2e2'') initialRuntime)) = []"
proof -
  have s: "sorted (map fst threeHovers)" "threeHovers \<noteq> []" "withinGap 300 threeHovers"
    by (simp_all add: threeHovers_def)
  have a: "armed (0, js ''teh'', js ''#fee2e2'')
             (handleHighlight 0 (js ''teh'') (js ''#fee2e2'') initialRuntime)"
    "calls (handleHighlight 0 (js ''teh'') (js ''#fee2e2'') initialRuntime) = []"
    using handleHighlight_initial[of 0 "js ''teh''" "js ''#fee2e2''"] by simp_all
  show ?thesis
    using s a
      hover_debounce[OF s(1), of "(0, js ''teh'', js ''#fee2e2'')"
        "handleHighlight 0 (js ''teh'') (js ''#fee2e2'') initialRuntime" 100
        "js ''cat''" "js ''#fef3c7''"]
    by (simp add: threeHovers_def afterDelay_def)
qed

section \<open>Stats: proofs\<close>

lemma forty_words_seventeen_errors: "stats (snd (performMainCheck (Fulfilled (Some seventeenErrors)) fortyWords resetStore)) =
       \<lparr>totalWords = 40, errorCount = 17, accuracy = 57\<rparr>"
  by code_simp

lemma spec_accuracy_40_17: "specAccuracy 40 17 = 58"
  by code_simp

lemma accuracy_10_3: "accuracy (computeStats (js ''a b c d e f g h i j'') (replicate 3 x)) = 70"
  by code_simp

lemma three_tokens_one_error: "computeStats [0x986, 0x9AE, 0x9BF, 0x20, 0x9AD, 0x9BE, 0x9B2, 0x20, 0x986, 0x99B, 0x9BF] [x]
   = \<lparr>totalWords = 3, errorCount = 1, accuracy = 67\<rparr>"
  by code_simp

lemma empty_text_stats: "computeStats [] [] = \<lparr>totalWords = 0, errorCount = 0, accuracy = 100\<rparr>"
  by code_simp

text \<open>
  The word count of the source is the number of white-space-delimited tokens: the pieces
  of the trimmed text that \<open>split\<close> and \<open>filter(Boolean)\<close> leave are the maximal runs of
  code units that are not white space.
\<close>

lemma tokens_Nil: "tokens [] = []"
  by (simp add: tokens.simps)

lemma tokens_ws: "isWhiteSpace c \<Longrightarrow> tokens (c # cs) = tokens cs"
  using tokens.simps[of "c # cs"] tokens.simps[of cs] by simp

lemma tokens_nonws:
  "\<not> isWhiteSpace c \<Longrightarrow>
   tokens (c # cs) =
     (c # takeWhile (\<lambda>x. \<not> isWhiteSpace x) cs) # tokens (dropWhile (\<lambda>x. \<not> isWhiteSpace x) cs)"
  using tokens.simps[of "c # cs"] by simp

lemma tokens_dropWhile: "tokens (dropWhile isWhiteSpace s) = tokens s"
  by (induction s) (simp_all add: tokens_ws)

lemma tokens_all_ws: "list_all isWhiteSpace w \<Longrightarrow> tokens w = []"
  by (induction w) (simp_all add: tokens_Nil tokens_ws)

lemma split_head_tokens:
  assumes "splitWhiteSpace d = takeWhile (\<lambda>x. \<not> isWhiteSpace x) d # rest"
    and "filter (\<lambda>w. w \<noteq> []) rest = tokens (dropWhile (\<lambda>x. \<not> isWhiteSpace x) d)"
    and "d = [] \<or> \<not> isWhiteSpace (hd d)"
  shows "filter (\<lambda>w. w \<noteq> []) (splitWhiteSpace d) = tokens d"
proof (cases d)
  case Nil
  then show ?thesis by (simp add: tokens_Nil)
next
  case (Cons x xs)
  then show ?thesis using assms by (simp add: tokens_nonws)
qed

lemma split_shape:
  "\<exists>rest. splitWhiteSpace s = takeWhile (\<lambda>x. \<not> isWhiteSpace x) s # rest \<and>
          filter (\<lambda>w. w \<noteq> []) rest = tokens (dropWhile (\<lambda>x. \<not> isWhiteSpace x) s)"
proof (induction s rule: splitWhiteSpace.induct)
  case 1
  show ?case by (simp add: tokens_Nil)
next
  case (2 c cs)
  show ?case
  proof (cases "isWhiteSpace c")
    case True
    let ?dw = "dropWhile isWhiteSpace cs"
    from 2(1)[OF True] obtain rest where
      r: "splitWhiteSpace ?dw = takeWhile (\<lambda>x. \<not> isWhiteSpace x) ?dw # rest"
      and f: "filter (\<lambda>w. w \<noteq> []) rest = tokens (dropWhile (\<lambda>x. \<not> isWhiteSpace x) ?dw)"
      by blast
    have t: "tokens (c # cs) = tokens ?dw"
      using True by (simp add: tokens_ws tokens_dropWhile)
    have "?dw = [] \<or> \<not> isWhiteSpace (hd ?dw)"
      using hd_dropWhile[of isWhiteSpace cs] by blast
    then have "filter (\<lambda>w. w \<noteq> []) (splitWhiteSpace ?dw) = tokens ?dw"
      using r f by (rule split_head_tokens[rotated 2])
    then show ?thesis using True t by simp
  next
    case False
    from 2(2)[OF False] obtain rest where
      "splitWhiteSpace cs = takeWhile (\<lambda>x. \<not> isWhiteSpace x) cs # rest"
      "filter (\<lambda>w. w \<noteq> []) rest = tokens (dropWhile (\<lambda>x. \<not> isWhiteSpace x) cs)"
      by blast
    then show ?thesis using False by simp
  qed
qed

lemma filter_split_tokens: "filter (\<lambda>w. w \<noteq> []) (splitWhiteSpace s) = tokens s"
proof -
  obtain rest where
    r: "splitWhiteSpace s = takeWhile (\<lambda>x. \<not> isWhiteSpace x) s # rest"
    and f: "filter (\<lambda>w. w \<noteq> []) rest = tokens (dropWhile (\<lambda>x. \<not> isWhiteSpace x) s)"
    using split_shape by blast
  show ?thesis
  proof (cases s)
    case Nil
    then show ?thesis by (simp add: tokens_Nil)
  next
    case (Cons c cs)
    then show ?thesis using r f by (cases "isWhiteSpace c") (simp_all add: tokens_nonws)
  qed
qed

lemma takeWhile_ws:
  "list_all isWhiteSpace w \<Longrightarrow> takeWhile (\<lambda>x. \<not> isWhiteSpace x) w = []"
  by (cases w) simp_all

lemma dropWhile_ws:
  "list_all isWhiteSpace w \<Longrightarrow> dropWhile (\<lambda>x. \<not> isWhiteSpace x) w = w"
  by (cases w) simp_all

lemma takeWhile_append_ws:
  "list_all isWhiteSpace w \<Longrightarrow>
   takeWhile (\<lambda>x. \<not> isWhiteSpace x) (cs @ w) = takeWhile (\<lambda>x. \<not> isWhiteSpace x) cs"
  by (induction cs) (simp_all add: takeWhile_ws)

lemma dropWhile_append_ws:
  "list_all isWhiteSpace w \<Longrightarrow>
   dropWhile (\<lambda>x. \<not> isWhiteSpace x) (cs @ w) = dropWhile (\<lambda>x. \<not> isWhiteSpace x) cs @ w"
  by (induction cs) (simp_all add: dropWhile_ws)

lemma tokens_append_ws: "list_all isWhiteSpace w \<Longrightarrow> tokens (u @ w) = tokens u"
proof (induction u rule: length_induct)
  case (1 u)
  show ?case
  proof (cases u)
    case Nil
    then show ?thesis using 1(2) by (simp add: tokens_all_ws tokens_Nil)
  next
    case (Cons c cs)
    show ?thesis
    proof (cases "isWhiteSpace c")
      case True
      then show ?thesis using 1 Cons by (simp add: tokens_ws)
    next
      case False
      have "length (dropWhile (\<lambda>x. \<not> isWhiteSpace x) cs) < length u"
        using Cons length_dropWhile_le[of "\<lambda>x. \<not> isWhiteSpace x" cs] by simp
      then have "tokens (dropWhile (\<lambda>x. \<not> isWhiteSpace x) cs @ w) =
                 tokens (dropWhile (\<lambda>x. \<not> isWhiteSpace x) cs)"
        using 1 by blast
      then show ?thesis
        using False Cons 1(2)
        by (simp add: tokens_nonws takeWhile_append_ws dropWhile_append_ws)
    qed
  qed
qed

lemma tokens_trim: "tokens (trim s) = tokens s"
proof -
  let ?t = "dropWhile isWhiteSpace s"
  have "rev ?t = takeWhile isWhiteSpace (rev ?t) @ dropWhile isWhiteSpace (rev ?t)"
    by simp
  then have "?t = rev (dropWhile isWhiteSpace (rev ?t)) @ rev (takeWhile isWhiteSpace (rev ?t))"
    by (metis rev_append rev_rev_ident)
  moreover have "list_all isWhiteSpace (rev (takeWhile isWhiteSpace (rev ?t)))"
    by (auto simp: list_all_iff dest: set_takeWhileD)
  ultimately have "tokens ?t = tokens (rev (dropWhile isWhiteSpace (rev ?t)))"
    using tokens_append_ws by metis
  then show ?thesis by (simp add: trim_def tokens_dropWhile)
qed

lemma countWords_tokens: "countWords t = int (length (tokens t))"
  by (simp add: countWords_def filter_split_tokens tokens_trim)

lemma stats_counts:
  "totalWords (computeStats t spelling) = int (length (tokens t)) \<and>
   errorCount (computeStats t spelling) = int (length spelling) \<and>
   (tokens t = [] \<longrightarrow> accuracy (computeStats t spelling) = 100)"
  by (simp add: computeStats_def Let_def countWords_tokens)

text \<open>The two roundings of the computation for 40 words and 17 errors.\<close>

lemma quotient_23_40: "toDouble (23 / 40) = 2589569785738035 / 4503599627370496"
  by code_simp

lemma product_23_40:
  "toDouble (2589569785738035 / 4503599627370496 * 100) = 8092405580431359 / 140737488355328"
  by code_simp

lemma product_below_tie: "(8092405580431359 / 140737488355328 :: rat) < 115 / 2"
  by simp

text \<open>
  C5 fails on the code for some word and error counts. The source computes
  \<open>Math.round(((words - errorCount) / words) * 100)\<close> in double precision: for 40 words and
  17 errors the quotient 23 / 40 is rounded to a double below 0.575, the product to
  57.49999999999999, and the stored accuracy is 57, where \<open>round(100 * 23 / 40)\<close> is 58.
  The word count and the error count are as the claim says.
\<close>

theorem accuracy_tie_rounds_down:
  "stats (snd (performMainCheck (Fulfilled (Some seventeenErrors)) fortyWords resetStore)) =
     \<lparr>totalWords = 40, errorCount = 17, accuracy = 57\<rparr> \<and>
   specAccuracy 40 17 = 58"
  by (simp add: forty_words_seventeen_errors spec_accuracy_40_17)

end
